theory Spec2Isabelle
  imports Complex_Main "HOL-Library.Sublist"
begin

section \<open>JavaScript values\<close>

text \<open>
  A JavaScript string is a sequence of UTF-16 code units. The pipeline works on Chinese
  text, so the model keeps the code units as numbers; \<open>str\<close> embeds an ASCII literal of
  the source.
\<close>

type_synonym jsstring = "nat list"

definition str :: "string \<Rightarrow> jsstring" where
  "str s = map of_char s"

text \<open>The characters matched by the regular expression class \<open>\s\<close>, which are also
  the characters removed by \<open>String.prototype.trim\<close>.\<close>

definition isSpace :: "nat \<Rightarrow> bool" where
  "isSpace u = (u \<in> set [9, 10, 11, 12, 13, 32, 160, 5760, 8232, 8233, 8239, 8287, 12288, 65279]
                \<or> (8192 \<le> u \<and> u \<le> 8202))"

definition trim :: "jsstring \<Rightarrow> jsstring" where
  "trim s = rev (dropWhile isSpace (rev (dropWhile isSpace s)))"

text \<open>\<open>s.replace(/\s+/g, '')\<close>\<close>

definition stripWhitespace :: "jsstring \<Rightarrow> jsstring" where
  "stripWhitespace s = filter (\<lambda>u. \<not> isSpace u) s"

text \<open>\<open>Array.from(s)\<close> iterates a string by code points: a high surrogate followed by a
  low surrogate is one element of two code units, every other code unit is an element
  of its own.\<close>

definition isHighSurrogate :: "nat \<Rightarrow> bool" where
  "isHighSurrogate u = (55296 \<le> u \<and> u \<le> 56319)"

definition isLowSurrogate :: "nat \<Rightarrow> bool" where
  "isLowSurrogate u = (56320 \<le> u \<and> u \<le> 57343)"

fun arrayFrom :: "jsstring \<Rightarrow> jsstring list" where
  "arrayFrom [] = []"
| "arrayFrom [u] = [[u]]"
| "arrayFrom (u # v # us) =
     (if isHighSurrogate u \<and> isLowSurrogate v then [u, v] # arrayFrom us
      else [u] # arrayFrom (v # us))"

text \<open>\<open>s.includes(t)\<close>\<close>

fun jsIncludes :: "jsstring \<Rightarrow> jsstring \<Rightarrow> bool" where
  "jsIncludes [] t = (t = [])"
| "jsIncludes (u # us) t = (prefix t (u # us) \<or> jsIncludes us t)"

text \<open>Decimal rendering of a status code inside a template literal.\<close>

fun showNat :: "nat \<Rightarrow> jsstring" where
  "showNat n = (if n < 10 then [48 + n] else showNat (n div 10) @ [48 + n mod 10])"

declare showNat.simps [simp del]

text \<open>
  The value \<open>JSON.parse\<close> returns. \<open>undefined\<close> is not a JSON value: an expression that
  may be \<open>undefined\<close> has type \<open>json option\<close>, with \<open>None\<close> for \<open>undefined\<close>.
\<close>

datatype json =
    JNull
  | JBool bool
  | JNum real
  | JStr jsstring
  | JArr "json list"
  | JObj "(jsstring \<times> json) list"

fun truthy :: "json \<Rightarrow> bool" where
  "truthy JNull = False"
| "truthy (JBool b) = b"
| "truthy (JNum n) = (n \<noteq> 0)"
| "truthy (JStr s) = (s \<noteq> [])"
| "truthy (JArr xs) = True"
| "truthy (JObj kvs) = True"

text \<open>
  \<open>v.k\<close> for a value that is neither \<open>null\<close> nor \<open>undefined\<close>, and for the property
  names read by this program (\<open>candidates\<close>, \<open>content\<close>, \<open>parts\<close>, \<open>text\<close>, \<open>error\<close>,
  \<open>message\<close>): none of them is defined on a prototype, so only an object's own
  properties answer. \<open>JSON.parse\<close> keeps the last of several equal keys.
\<close>

fun getProp :: "jsstring \<Rightarrow> json \<Rightarrow> json option" where
  "getProp k (JObj kvs) = map_of (rev kvs) k"
| "getProp k v = None"

text \<open>\<open>v[0]\<close> for a value that is neither \<open>null\<close> nor \<open>undefined\<close>.\<close>

fun getIndex0 :: "json \<Rightarrow> json option" where
  "getIndex0 (JArr xs) = (case xs of [] \<Rightarrow> None | x # rest \<Rightarrow> Some x)"
| "getIndex0 (JStr s) = (case s of [] \<Rightarrow> None | u # rest \<Rightarrow> Some (JStr [u]))"
| "getIndex0 (JObj kvs) = map_of (rev kvs) (str ''0'')"
| "getIndex0 v = None"

text \<open>Optional chaining: \<open>v?.k\<close> and \<open>v?.[0]\<close>.\<close>

definition optProp :: "jsstring \<Rightarrow> json option \<Rightarrow> json option" where
  "optProp k v = (case v of None \<Rightarrow> None | Some JNull \<Rightarrow> None | Some j \<Rightarrow> getProp k j)"

definition optIndex0 :: "json option \<Rightarrow> json option" where
  "optIndex0 v = (case v of None \<Rightarrow> None | Some JNull \<Rightarrow> None | Some j \<Rightarrow> getIndex0 j)"

text \<open>The messages of the \<open>TypeError\<close>s the engine raises (V8's wording).\<close>

definition cannotReadNull :: "string \<Rightarrow> jsstring" where
  "cannotReadNull k = str ''Cannot read properties of null (reading '' @ [39] @ str k @ [39] @ str '')''"

definition notAFunction :: "string \<Rightarrow> jsstring" where
  "notAFunction f = str f @ str '' is not a function''"

text \<open>
  \<open>data.candidates?.[0]?.content?.parts?.[0]?.text\<close>: the text of the first part of the
  first candidate of a Gemini reply. \<open>data\<close> comes from \<open>JSON.parse\<close>; reading a property
  of \<open>null\<close> throws (\<open>Inl\<close> carries the message of the exception).
\<close>

definition candidateText :: "json \<Rightarrow> jsstring + json option" where
  "candidateText data =
     (if data = JNull then Inl (cannotReadNull ''candidates'')
      else Inr (optProp (str ''text'') (optIndex0 (optProp (str ''parts'')
             (optProp (str ''content'') (optIndex0 (getProp (str ''candidates'') data)))))))"

text \<open>\<open>v || ''\<close>\<close>

definition orEmpty :: "json option \<Rightarrow> json" where
  "orEmpty v = (case v of None \<Rightarrow> JStr [] | Some j \<Rightarrow> if truthy j then j else JStr [])"

section \<open>The environment of a run\<close>

text \<open>
  Every outbound request of a run is one of the following calls: the OCR request of
  \<open>extractTextWithGemini\<close> for a configuration (API version and model), the request of
  the verification pass, the bulk request of \<open>getCharacterMeanings\<close> (with its output
  budget), its fallback request for the batch that starts at an index, the last-resort
  request of \<open>matchGlyphs\<close> for the character at a position, and the request of
  \<open>generateTranslation\<close> for a configuration. Each call site is reached at most once
  per run for a given index, so the reply of the outside world is a function of the call.
\<close>

datatype call =
    OcrCall string string
  | VerifyCall
  | MeaningsCall nat
  | MeaningsBatchCall nat
  | CharMeaningCall nat
  | TranslateCall string string

text \<open>
  What \<open>httpsRequest\<close> gives back: the promise is rejected with an error (its message),
  or it resolves with a status code and a body; the body is represented by what
  \<open>response.json()\<close> does with it, which throws a \<open>SyntaxError\<close> (\<open>Inl\<close>, its message) or
  returns the parsed value.
\<close>

datatype response =
    Rejected jsstring
  | Resolved nat "jsstring + json"

definition ok :: "nat \<Rightarrow> bool" where
  "ok status = (200 \<le> status \<and> status < 300)"

text \<open>
  The process environment and the outside world. \<open>toLowerCase\<close>, \<open>numberToString\<close> and
  \<open>meaningEntries\<close> are services of the JavaScript runtime that the program calls and
  that are taken as they are: \<open>meaningEntries t\<close> is the list of (key, value) pairs that
  the reply-parsing code of \<open>getCharacterMeanings\<close> (stripping code fences,
  \<open>JSON.parse\<close> of the outermost braces, or the line-by-line regular expression when that
  throws) stores into \<open>meanings\<close> for the reply text \<open>t\<close>, in the order of the
  assignments.
\<close>

record env =
  GOOGLE_GEMINI_API_KEY :: "jsstring option"
  NODE_ENV :: "jsstring option"
  ENABLE_OCR_FALLBACK :: "jsstring option"
  readFile :: "jsstring \<Rightarrow> jsstring + unit"
  httpsRequest :: "call \<Rightarrow> response"
  toLowerCase :: "jsstring \<Rightarrow> jsstring"
  numberToString :: "real \<Rightarrow> jsstring"
  meaningEntries :: "jsstring \<Rightarrow> (jsstring \<times> jsstring) list"

text \<open>\<open>if (process.env.X)\<close>: set and not the empty string.\<close>

definition isSet :: "jsstring option \<Rightarrow> bool" where
  "isSet v = (case v of None \<Rightarrow> False | Some s \<Rightarrow> s \<noteq> [])"

text \<open>A value inside a template literal: \<open>String(v)\<close>.\<close>

fun jsToString :: "env \<Rightarrow> json \<Rightarrow> jsstring"
  and joinElements :: "env \<Rightarrow> json list \<Rightarrow> jsstring" where
  "jsToString e JNull = str ''null''"
| "jsToString e (JBool b) = (if b then str ''true'' else str ''false'')"
| "jsToString e (JNum n) = numberToString e n"
| "jsToString e (JStr s) = s"
| "jsToString e (JArr xs) = joinElements e xs"
| "jsToString e (JObj kvs) = str ''[object Object]''"
| "joinElements e [] = []"
| "joinElements e (x # xs) =
     (if x = JNull then [] else jsToString e x) @
     (if xs = [] then [] else [44] @ joinElements e xs)"

section \<open>OCR orchestrator\<close>

datatype ocrMethod = Huggingface | Tesseract | Gemini | Fallback | Alternative | HuggingfaceAncient

text \<open>The interface \<open>OCRResult\<close>; \<open>error\<close> is optional.\<close>

record OCRResult =
  ocrText :: jsstring
  ocrConfidence :: real
  ocrMethod :: ocrMethod
  ocrError :: "jsstring option"

definition apiConfigs :: "(string \<times> string) list" where
  "apiConfigs = [(''v1beta'', ''gemini-2.5-flash''), (''v1'', ''gemini-2.5-flash''),
                 (''v1beta'', ''gemini-2.5-flash-lite''), (''v1'', ''gemini-2.5-flash-lite'')]"

text \<open>
  The error branch of a Gemini reply: \<open>errorDetails\<close> starts as \<open>Status <code>\<close> and
  becomes \<open>errorData.error?.message || errorData.message || errorDetails\<close> unless reading
  the body throws.
\<close>

definition errorDetails :: "env \<Rightarrow> nat \<Rightarrow> jsstring + json \<Rightarrow> jsstring" where
  "errorDetails e status parsed =
     (let dflt = str ''Status '' @ showNat status in
      case parsed of
        Inl msg \<Rightarrow> dflt
      | Inr errorData \<Rightarrow>
          if errorData = JNull then dflt
          else (case optProp (str ''message'') (getProp (str ''error'') errorData) of
                  Some m \<Rightarrow>
                    if truthy m then jsToString e m
                    else (case getProp (str ''message'') errorData of
                            Some m' \<Rightarrow> if truthy m' then jsToString e m' else dflt
                          | None \<Rightarrow> dflt)
                | None \<Rightarrow>
                    (case getProp (str ''message'') errorData of
                       Some m' \<Rightarrow> if truthy m' then jsToString e m' else dflt
                     | None \<Rightarrow> dflt)))"

text \<open>
  One iteration of the loop over \<open>apiConfigs\<close> in \<open>extractTextWithGemini\<close>: it returns
  from the function, or goes on to the next configuration with the value of
  \<open>lastError\<close> (the message of the error, \<open>None\<close> for \<open>null\<close>).
\<close>

datatype 'a step = Return 'a | Continue "jsstring option"

definition geminiAttempt :: "env \<Rightarrow> string \<times> string \<Rightarrow> jsstring option \<Rightarrow> OCRResult step" where
  "geminiAttempt e config lastError =
     (case httpsRequest e (OcrCall (fst config) (snd config)) of
        Rejected msg \<Rightarrow> Continue (Some msg)
      | Resolved status parsed \<Rightarrow>
          if status = 404 then Continue lastError
          else if status = 429 then Continue lastError
          else if \<not> ok status then
            Continue (Some (str ''Gemini API error: '' @ errorDetails e status parsed))
          else (case parsed of
                  Inl msg \<Rightarrow> Continue (Some msg)
                | Inr data \<Rightarrow>
                    (case candidateText data of
                       Inl msg \<Rightarrow> Continue (Some msg)
                     | Inr v \<Rightarrow>
                         (let extractedText = orEmpty v in
                          if truthy extractedText then
                            (case extractedText of
                               JStr s \<Rightarrow> Return \<lparr>ocrText = trim s, ocrConfidence = 0.90,
                                                 ocrMethod = Gemini, ocrError = None\<rparr>
                             | other \<Rightarrow> Continue (Some (notAFunction ''extractedText.trim'')))
                          else Continue lastError))))"

text \<open>\<open>lastError?.message || 'Unknown Gemini API error'\<close>\<close>

definition errorMessage :: "jsstring option \<Rightarrow> jsstring" where
  "errorMessage lastError =
     (case lastError of
        None \<Rightarrow> str ''Unknown Gemini API error''
      | Some m \<Rightarrow> if m \<noteq> [] then m else str ''Unknown Gemini API error'')"

text \<open>The loop over the configurations, with the requests it issues, in order.\<close>

fun geminiLoop :: "env \<Rightarrow> (string \<times> string) list \<Rightarrow> jsstring option \<Rightarrow> OCRResult \<times> call list" where
  "geminiLoop e [] lastError =
     (\<lparr>ocrText = [], ocrConfidence = 0, ocrMethod = Gemini,
       ocrError = Some (errorMessage lastError)\<rparr>, [])"
| "geminiLoop e (config # rest) lastError =
     (case geminiAttempt e config lastError of
        Return r \<Rightarrow> (r, [OcrCall (fst config) (snd config)])
      | Continue lastError' \<Rightarrow>
          (let (r, calls) = geminiLoop e rest lastError'
           in (r, OcrCall (fst config) (snd config) # calls)))"

text \<open>\<open>extractTextWithGemini\<close>: \<open>Inl\<close> is a thrown error (its message).\<close>

definition extractTextWithGemini :: "env \<Rightarrow> jsstring \<Rightarrow> (jsstring + OCRResult) \<times> call list" where
  "extractTextWithGemini e imagePath =
     (if \<not> isSet (GOOGLE_GEMINI_API_KEY e) then
        (Inl (str ''Google Gemini API key not configured''), [])
      else (case readFile e imagePath of
              Inl msg \<Rightarrow> (Inl msg, [])
            | Inr u \<Rightarrow>
                (let (r, calls) = geminiLoop e apiConfigs None in (Inr r, calls))))"

text \<open>\<open>postProcessWithAncientChineseModels\<close>: every path returns the text it was given.
  (The Hugging Face token only adds a header to the request.)\<close>

definition postProcessWithAncientChineseModels :: "env \<Rightarrow> jsstring \<Rightarrow> jsstring \<times> call list" where
  "postProcessWithAncientChineseModels e t =
     (if t = [] then (t, [])
      else (case httpsRequest e VerifyCall of
              Rejected msg \<Rightarrow> (t, [VerifyCall])
            | Resolved status parsed \<Rightarrow>
                if ok status then
                  (case parsed of
                     Inl msg \<Rightarrow> (t, [VerifyCall])
                   | Inr data \<Rightarrow> (t, [VerifyCall]))
                else (t, [VerifyCall])))"

text \<open>The list \<open>methods\<close> of \<open>extractTextFromImage\<close>: Gemini, when its key is set.\<close>

definition methods :: "env \<Rightarrow> (string \<times> (env \<Rightarrow> jsstring \<Rightarrow> (jsstring + OCRResult) \<times> call list)) list" where
  "methods e = (if isSet (GOOGLE_GEMINI_API_KEY e) then [(''Gemini'', extractTextWithGemini)] else [])"

text \<open>The post-processing step applied to a successful result.\<close>

definition applyPostProcessing :: "OCRResult \<Rightarrow> jsstring \<Rightarrow> OCRResult" where
  "applyPostProcessing result improvedText =
     (if improvedText \<noteq> [] \<and> improvedText \<noteq> ocrText result then
        result\<lparr>ocrText := improvedText, ocrConfidence := min (ocrConfidence result + 0.05) 0.95\<rparr>
      else result)"

fun methodLoop :: "env \<Rightarrow> jsstring \<Rightarrow>
    (string \<times> (env \<Rightarrow> jsstring \<Rightarrow> (jsstring + OCRResult) \<times> call list)) list \<Rightarrow> OCRResult \<times> call list" where
  "methodLoop e imagePath [] =
     (\<lparr>ocrText = [], ocrConfidence = 0, ocrMethod = Fallback,
       ocrError = Some (str ''All OCR methods failed. Please ensure the image is clear and contains readable text.'')\<rparr>, [])"
| "methodLoop e imagePath (m # ms) =
     (case snd m e imagePath of
        (Inl msg, calls) \<Rightarrow>
          (let (r, calls') = methodLoop e imagePath ms in (r, calls @ calls'))
      | (Inr result, calls) \<Rightarrow>
          if ocrText result \<noteq> [] then
            (let (improvedText, calls') = postProcessWithAncientChineseModels e (ocrText result)
             in (applyPostProcessing result improvedText, calls @ calls'))
          else (let (r, calls') = methodLoop e imagePath ms in (r, calls @ calls')))"

definition extractTextFromImage :: "env \<Rightarrow> jsstring \<Rightarrow> OCRResult \<times> call list" where
  "extractTextFromImage e imagePath = methodLoop e imagePath (methods e)"

section \<open>The glyph store\<close>

text \<open>
  The tables of the database that the pipeline reads and writes, as lists of rows in the
  order in which \<open>findMany\<close> and \<open>findFirst\<close> see them. Identifiers are numbers;
  \<open>db_nextId\<close> is the source of fresh ones. A \<open>boundingBox\<close> column holds the value
  whose \<open>JSON.stringify\<close> text is stored, and \<open>reconstructedGlyphs\<close> holds the list
  that is serialised.
\<close>

datatype processingStatus = PENDING | PROCESSING | COMPLETED | FAILED

record uploadRow =
  upload_id :: nat
  upload_userId :: nat
  upload_filePath :: jsstring
  upload_status :: processingStatus
  upload_scriptType :: "jsstring option"

record scriptRow =
  script_id :: nat
  script_name :: jsstring

record glyphRow =
  glyph_id :: nat
  glyph_scriptId :: nat
  glyph_symbol :: jsstring
  glyph_name :: "jsstring option"
  glyph_description :: "jsstring option"
  glyph_confidence :: real

record glyphMatchRow =
  gm_uploadId :: nat
  gm_glyphId :: nat
  gm_confidence :: real
  gm_boundingBox :: "json option"
  gm_position :: "nat option"

record translationRow =
  tr_uploadId :: nat
  tr_originalText :: jsstring

record ReconstructionResult =
  reconstructedGlyph :: jsstring
  rr_confidence :: real

text \<open>\<open>rv_confidence\<close> is \<open>None\<close> for \<open>NaN\<close>, the value of \<open>0 / 0\<close>.\<close>

record reconstructionVersionRow =
  rv_uploadId :: nat
  versionNumber :: nat
  reconstructedGlyphs :: "ReconstructionResult list"
  rv_confidence :: "real option"
  rv_method :: string

record db =
  db_upload :: "uploadRow list"
  db_ancientScript :: "scriptRow list"
  db_glyph :: "glyphRow list"
  db_glyphMatch :: "glyphMatchRow list"
  db_translation :: "translationRow list"
  db_reconstructionVersion :: "reconstructionVersionRow list"
  db_nextId :: nat

section \<open>Glyph matcher\<close>

record boundingBox =
  bb_x :: nat
  bb_y :: nat
  bb_width :: nat
  bb_height :: nat

text \<open>The interface \<open>GlyphMatch\<close>; \<open>boundingBox\<close> and \<open>meaning\<close> are optional.\<close>

record GlyphMatch =
  symbol :: jsstring
  confidence :: real
  position :: nat
  boundingBox :: "boundingBox option"
  meaning :: "jsstring option"

text \<open>\<open>/[\u4e00-\u9fff]/.test(char)\<close>\<close>

definition isChinese :: "jsstring \<Rightarrow> bool" where
  "isChinese char = list_ex (\<lambda>u. 19968 \<le> u \<and> u \<le> 40959) char"

text \<open>\<open>/[.,;:!?\-_=+()\[\]{}]/.test(char)\<close>\<close>

definition isPunctuation :: "jsstring \<Rightarrow> bool" where
  "isPunctuation char = list_ex (\<lambda>u. u \<in> set (str ''.,;:!?-_=+()[]{}'')) char"

text \<open>\<open>Array.from(new Set(xs))\<close>: the first occurrence of every element, in order.\<close>

definition uniqueOf :: "'a list \<Rightarrow> 'a list" where
  "uniqueOf xs = rev (remdups (rev xs))"

text \<open>
  What one reply to a meanings request adds to \<open>meanings\<close>: nothing unless the request
  resolves with a success status, the body parses, and the candidate text is a string.
  (A text that is not a string makes \<open>substring\<close>, \<open>replace\<close> or \<open>split\<close> throw inside
  the \<open>try\<close>.)
\<close>

definition replyEntries :: "env \<Rightarrow> response \<Rightarrow> (jsstring \<times> jsstring) list" where
  "replyEntries e r =
     (case r of
        Rejected msg \<Rightarrow> []
      | Resolved status parsed \<Rightarrow>
          if ok status then
            (case parsed of
               Inl msg \<Rightarrow> []
             | Inr data \<Rightarrow>
                 (case candidateText data of
                    Inl msg \<Rightarrow> []
                  | Inr v \<Rightarrow> (case orEmpty v of JStr s \<Rightarrow> meaningEntries e s | other \<Rightarrow> [])))
          else [])"

definition estimatedTokens :: "nat \<Rightarrow> nat" where
  "estimatedTokens n = min (max 800 (n * 60)) 8000"

text \<open>The fallback loop of \<open>getCharacterMeanings\<close>, in batches of 20 characters.\<close>

function batchLoop :: "env \<Rightarrow> jsstring list \<Rightarrow> nat \<Rightarrow> (jsstring \<times> jsstring) list \<times> call list" where
  "batchLoop e uniqueChars i =
     (if i < length uniqueChars then
        (let entries = replyEntries e (httpsRequest e (MeaningsBatchCall i));
             (entries', calls) = batchLoop e uniqueChars (i + 20)
         in (entries @ entries', MeaningsBatchCall i # calls))
      else ([], []))"
  by pat_completeness auto
termination
  by (relation "measure (\<lambda>(e, uniqueChars, i). length uniqueChars - i)") auto

declare batchLoop.simps [simp del]

text \<open>A value that may not be a string although its type says so: a property that a
  lookup in an object literal inherits from \<open>Object.prototype\<close>.\<close>

datatype jsvalue = Str jsstring | Inherited string

text \<open>
  \<open>getCharacterMeanings\<close>. The object \<open>meanings\<close> is the list of its assignments, the
  last one for a key being its value. With a context that is not a string,
  \<open>translationContext.substring\<close> throws before the first request is sent.
\<close>

definition getCharacterMeanings ::
    "env \<Rightarrow> jsstring \<Rightarrow> jsvalue option \<Rightarrow> (jsstring \<times> jsstring) list \<times> call list" where
  "getCharacterMeanings e extractedText translationContext =
     (if extractedText = [] then ([], [])
      else
        (let uniqueChars = filter isChinese (uniqueOf (arrayFrom (stripWhitespace extractedText)))
         in if uniqueChars = [] then ([], [])
            else
              (let (meanings, calls) =
                     (if isSet (GOOGLE_GEMINI_API_KEY e) then
                        (case translationContext of
                           Some (Inherited k) \<Rightarrow> ([], [])
                         | other \<Rightarrow>
                             (replyEntries e (httpsRequest e (MeaningsCall (estimatedTokens (length uniqueChars)))),
                              [MeaningsCall (estimatedTokens (length uniqueChars))]))
                      else ([], []))
               in if meanings = [] \<and> length uniqueChars > 0 \<and> isSet (GOOGLE_GEMINI_API_KEY e) then
                    (let (meanings', calls') = batchLoop e uniqueChars 0
                     in (meanings', calls @ calls'))
                  else (meanings, calls))))"

text \<open>\<open>aiMeanings[char]\<close>, for a \<open>char\<close> that is one code point: no property of
  \<open>Object.prototype\<close> has such a name, so only the assignments answer.\<close>

definition lookupMeaning :: "(jsstring \<times> jsstring) list \<Rightarrow> jsstring \<Rightarrow> jsstring option" where
  "lookupMeaning meanings char = map_of (rev meanings) char"

text \<open>A value of type \<open>string | null | undefined\<close> in a condition.\<close>

definition nonEmpty :: "jsstring option \<Rightarrow> bool" where
  "nonEmpty v = (case v of None \<Rightarrow> False | Some s \<Rightarrow> s \<noteq> [])"

text \<open>\<open>a.charCodeAt(0) === b.charCodeAt(0)\<close>; \<open>charCodeAt\<close> of an empty string is \<open>NaN\<close>.\<close>

definition sameFirstCodeUnit :: "jsstring \<Rightarrow> jsstring \<Rightarrow> bool" where
  "sameFirstCodeUnit a b = (case a of [] \<Rightarrow> False | u # us \<Rightarrow> (case b of [] \<Rightarrow> False | v # vs \<Rightarrow> u = v))"

text \<open>The store lookup of \<open>matchGlyphs\<close>: the exact match, then the relaxed one.\<close>

definition findMatchedGlyph :: "env \<Rightarrow> glyphRow list \<Rightarrow> jsstring \<Rightarrow> glyphRow option" where
  "findMatchedGlyph e dbGlyphs char =
     (case find (\<lambda>g. glyph_symbol g = char) dbGlyphs of
        Some g \<Rightarrow> Some g
      | None \<Rightarrow>
          if length char > 0 then
            find (\<lambda>g. sameFirstCodeUnit (glyph_symbol g) char \<or>
                       glyph_symbol g = char \<or>
                       (case glyph_name g of
                          None \<Rightarrow> False
                        | Some n \<Rightarrow> n \<noteq> [] \<and> jsIncludes (toLowerCase e n) (toLowerCase e char))) dbGlyphs
          else None)"

text \<open>\<open>matchedGlyph.description || matchedGlyph.name\<close>\<close>

definition dbMeaningOf :: "glyphRow \<Rightarrow> jsstring option" where
  "dbMeaningOf g = (if nonEmpty (glyph_description g) then glyph_description g else glyph_name g)"

definition isPlaceholder :: "jsstring option \<Rightarrow> bool" where
  "isPlaceholder dbMeaning =
     (case dbMeaning of
        None \<Rightarrow> True
      | Some m \<Rightarrow> m = [] \<or> jsIncludes m (str ''Character:'') \<or> jsIncludes m (str ''Unknown'') \<or>
                  jsIncludes m (str ''not available''))"

definition placedBox :: "nat \<Rightarrow> boundingBox" where
  "placedBox i = \<lparr>bb_x = i * 60 + 10, bb_y = 20, bb_width = 50, bb_height = 50\<rparr>"

text \<open>The last resort of \<open>matchGlyphs\<close>: one request for the meaning of one character,
  for the character at position \<open>i\<close>. The result is \<open>fallbackMeaning\<close>.\<close>

definition singleCharacterLookup :: "env \<Rightarrow> nat \<Rightarrow> jsstring option \<times> call list" where
  "singleCharacterLookup e i =
     (if isSet (GOOGLE_GEMINI_API_KEY e) then
        (case httpsRequest e (CharMeaningCall i) of
           Rejected msg \<Rightarrow> (None, [CharMeaningCall i])
         | Resolved status parsed \<Rightarrow>
             if ok status then
               (case parsed of
                  Inl msg \<Rightarrow> (None, [CharMeaningCall i])
                | Inr data \<Rightarrow>
                    (case candidateText data of
                       Inl msg \<Rightarrow> (None, [CharMeaningCall i])
                     | Inr v \<Rightarrow>
                         (case orEmpty v of
                            JStr s \<Rightarrow> (if length (trim s) > 0 then Some (trim s) else None, [CharMeaningCall i])
                          | other \<Rightarrow> (None, [CharMeaningCall i]))))
             else (None, [CharMeaningCall i]))
      else (None, []))"

text \<open>The body of the loop of \<open>matchGlyphs\<close> for a character that is not skipped.\<close>

definition matchCharacter ::
    "env \<Rightarrow> (jsstring \<times> jsstring) list \<Rightarrow> glyphRow list \<Rightarrow> nat \<Rightarrow> jsstring \<Rightarrow> GlyphMatch \<times> call list" where
  "matchCharacter e aiMeanings dbGlyphs i char =
     (case findMatchedGlyph e dbGlyphs char of
        Some matchedGlyph \<Rightarrow>
          (let dbMeaning = dbMeaningOf matchedGlyph;
               finalMeaning =
                 (if nonEmpty (lookupMeaning aiMeanings char) then lookupMeaning aiMeanings char
                  else if nonEmpty dbMeaning \<and> \<not> isPlaceholder dbMeaning then dbMeaning
                  else Some (str ''Unknown character (may need to be added to database)''));
               conf =
                 (if nonEmpty (lookupMeaning aiMeanings char) then 0.85
                  else if nonEmpty dbMeaning \<and> \<not> isPlaceholder dbMeaning then
                    max (if glyph_confidence matchedGlyph \<noteq> 0 then glyph_confidence matchedGlyph else 0.75) 0.75
                  else 0.60)
           in (\<lparr>symbol = char, confidence = conf, position = i,
                 boundingBox = Some (placedBox i), meaning = finalMeaning\<rparr>, []))
      | None \<Rightarrow>
          (if nonEmpty (lookupMeaning aiMeanings char) then
             (\<lparr>symbol = char, confidence = 0.85, position = i,
               boundingBox = Some (placedBox i), meaning = lookupMeaning aiMeanings char\<rparr>, [])
           else
             (let (fallbackMeaning, calls) = singleCharacterLookup e i
              in (\<lparr>symbol = char,
                    confidence = (if nonEmpty fallbackMeaning then 0.70 else 0.60),
                    position = i,
                    boundingBox = Some (placedBox i),
                    meaning = (if nonEmpty fallbackMeaning then fallbackMeaning
                               else Some (str ''Character recognized but meaning not available''))\<rparr>,
                  calls))))"

fun matchLoop ::
    "env \<Rightarrow> (jsstring \<times> jsstring) list \<Rightarrow> glyphRow list \<Rightarrow> nat \<Rightarrow> jsstring list \<Rightarrow> GlyphMatch list \<times> call list" where
  "matchLoop e aiMeanings dbGlyphs i [] = ([], [])"
| "matchLoop e aiMeanings dbGlyphs i (char # rest) =
     (if isPunctuation char then matchLoop e aiMeanings dbGlyphs (i + 1) rest
      else
        (let (g, calls) = matchCharacter e aiMeanings dbGlyphs i char;
             (gs, calls') = matchLoop e aiMeanings dbGlyphs (i + 1) rest
         in (g # gs, calls @ calls')))"

definition matchGlyphs ::
    "env \<Rightarrow> jsstring \<Rightarrow> db \<Rightarrow> jsvalue option \<Rightarrow> GlyphMatch list \<times> call list" where
  "matchGlyphs e extractedText d translationContext =
     (if extractedText = [] then ([], [])
      else
        (let (aiMeanings, calls) = getCharacterMeanings e extractedText translationContext;
             dbGlyphs = db_glyph d;
             characters = arrayFrom (stripWhitespace extractedText);
             (glyphs, calls') = matchLoop e aiMeanings dbGlyphs 0 characters
         in (glyphs, calls @ calls')))"

section \<open>Translation generator\<close>

record TranslationResult =
  translation :: jsvalue
  translationConfidence :: real

text \<open>One iteration of the loop over the configurations in \<open>generateTranslation\<close>: the
  translation it returns, or \<open>None\<close> when the loop goes on.\<close>

definition translateAttempt :: "env \<Rightarrow> string \<times> string \<Rightarrow> jsstring option" where
  "translateAttempt e config =
     (case httpsRequest e (TranslateCall (fst config) (snd config)) of
        Rejected msg \<Rightarrow> None
      | Resolved status parsed \<Rightarrow>
          if ok status then
            (case parsed of
               Inl msg \<Rightarrow> None
             | Inr data \<Rightarrow>
                 (case candidateText data of
                    Inl msg \<Rightarrow> None
                  | Inr v \<Rightarrow>
                      (let t = orEmpty v in
                       if truthy t then (case t of JStr s \<Rightarrow> Some (trim s) | other \<Rightarrow> None)
                       else None)))
          else if status = 404 then None
          else None)"

fun translateLoop :: "env \<Rightarrow> (string \<times> string) list \<Rightarrow> jsstring option \<times> call list" where
  "translateLoop e [] = (None, [])"
| "translateLoop e (config # rest) =
     (case translateAttempt e config of
        Some t \<Rightarrow> (Some t, [TranslateCall (fst config) (snd config)])
      | None \<Rightarrow>
          (let (r, calls) = translateLoop e rest
           in (r, TranslateCall (fst config) (snd config) # calls)))"

text \<open>The object literal \<open>commonTranslations\<close>: its own properties.\<close>

definition commonTranslations :: "(jsstring \<times> jsstring) list" where
  "commonTranslations =
     [([36947, 27861, 33258, 28982],
       str ''The Tao follows nature - A fundamental concept in Taoist philosophy suggesting that the natural way of things is the best way.''),
      ([22825, 20154, 21512, 19968],
       str ''Heaven and humanity are one - The unity between the cosmos and human existence.''),
      ([36947, 24503, 32463],
       str ''Tao Te Ching - The fundamental text of Taoism attributed to Laozi.''),
      ([20161, 20041, 31036, 26234],
       str ''Benevolence, righteousness, propriety, and wisdom - The four cardinal virtues in Confucianism.''),
      ([36947, 24503],
       str ''Virtue and morality - Core ethical principles in Chinese philosophy.''),
      ([20161, 20041],
       str ''Benevolence and righteousness - Key Confucian virtues.''),
      ([26234, 24935],
       str ''Wisdom and intelligence - The pursuit of knowledge and understanding.'')]"

text \<open>The properties every object literal inherits from \<open>Object.prototype\<close>; each of
  them is a function or an object, hence true in a condition.\<close>

definition objectPrototypeKeys :: "string list" where
  "objectPrototypeKeys =
     [''constructor'', ''__defineGetter__'', ''__defineSetter__'', ''hasOwnProperty'',
      ''__lookupGetter__'', ''__lookupSetter__'', ''isPrototypeOf'', ''propertyIsEnumerable'',
      ''toString'', ''valueOf'', ''__proto__'', ''toLocaleString'']"

text \<open>\<open>commonTranslations[extractedText]\<close>\<close>

definition lookupCommonTranslation :: "jsstring \<Rightarrow> jsvalue option" where
  "lookupCommonTranslation extractedText =
     (case map_of commonTranslations extractedText of
        Some v \<Rightarrow> Some (Str v)
      | None \<Rightarrow>
          (case find (\<lambda>k. str k = extractedText) objectPrototypeKeys of
             Some k \<Rightarrow> Some (Inherited k)
           | None \<Rightarrow> None))"

text \<open>\<open>v || d\<close> for an optional string \<open>v\<close>.\<close>

definition orElse :: "jsstring option \<Rightarrow> jsstring \<Rightarrow> jsstring" where
  "orElse v d = (case v of None \<Rightarrow> d | Some s \<Rightarrow> if s \<noteq> [] then s else d)"

fun joinWith :: "jsstring \<Rightarrow> jsstring list \<Rightarrow> jsstring" where
  "joinWith sep [] = []"
| "joinWith sep [x] = x"
| "joinWith sep (x # y # ys) = x @ sep @ joinWith sep (y # ys)"

text \<open>The template of the generic translation.\<close>

definition genericTranslation :: "jsstring \<Rightarrow> GlyphMatch list \<Rightarrow> jsstring" where
  "genericTranslation extractedText glyphs =
     str ''Translation of '' @ [34] @ extractedText @ [34] @
     str '' - This ancient text contains cultural and philosophical significance. Individual characters: '' @
     joinWith (str '', '')
       (filter (\<lambda>s. s \<noteq> [])
          (map (\<lambda>g. symbol g @ str '' ('' @ orElse (meaning g) (str ''unknown'') @ str '')'') glyphs))"

definition avgConfidence :: "GlyphMatch list \<Rightarrow> real" where
  "avgConfidence glyphs =
     (if length glyphs > 0 then foldl (\<lambda>sum g. sum + confidence g) 0 glyphs / real (length glyphs)
      else 0.70)"

definition generateTranslation :: "env \<Rightarrow> jsstring \<Rightarrow> GlyphMatch list \<Rightarrow> TranslationResult \<times> call list" where
  "generateTranslation e extractedText glyphs =
     (if extractedText = [] then
        (\<lparr>translation = Str (str ''Unable to extract text from image. Please ensure the image is clear and contains readable text.''),
          translationConfidence = 0.0\<rparr>, [])
      else
        (let (r, calls) = (if isSet (GOOGLE_GEMINI_API_KEY e) then translateLoop e apiConfigs else (None, []))
         in case r of
              Some t \<Rightarrow> (\<lparr>translation = Str t, translationConfidence = 0.88\<rparr>, calls)
            | None \<Rightarrow>
                (case lookupCommonTranslation extractedText of
                   Some v \<Rightarrow> (\<lparr>translation = v, translationConfidence = 0.90\<rparr>, calls)
                 | None \<Rightarrow>
                     (\<lparr>translation = Str (genericTranslation extractedText glyphs),
                       translationConfidence = min (avgConfidence glyphs) 0.85\<rparr>, calls))))"

section \<open>Pipeline coordinator\<close>

record ProcessingResult =
  extractedText :: jsstring
  pr_glyphs :: "GlyphMatch list"
  scriptType :: "jsstring option"
  pr_confidence :: real
  pr_method :: jsstring

definition methodName :: "ocrMethod \<Rightarrow> jsstring" where
  "methodName m =
     (case m of
        Huggingface \<Rightarrow> str ''huggingface''
      | Tesseract \<Rightarrow> str ''tesseract''
      | Gemini \<Rightarrow> str ''gemini''
      | Fallback \<Rightarrow> str ''fallback''
      | Alternative \<Rightarrow> str ''alternative''
      | HuggingfaceAncient \<Rightarrow> str ''huggingface-ancient'')"

text \<open>The script type: the name of the script of the first stored glyph whose symbol is
  among the matched symbols, with the default when there is none.\<close>

definition detectScriptType :: "db \<Rightarrow> GlyphMatch list \<Rightarrow> jsstring" where
  "detectScriptType d glyphs =
     (if length glyphs > 0 then
        (let glyphSymbols = map symbol glyphs;
             matchedDbGlyphs = filter (\<lambda>g. glyph_symbol g \<in> set glyphSymbols) (db_glyph d);
             scriptTypes = List.map_filter
               (\<lambda>g. map_option script_name (find (\<lambda>s. script_id s = glyph_scriptId g) (db_ancientScript d)))
               matchedDbGlyphs
         in case scriptTypes of
              [] \<Rightarrow> str ''Traditional Chinese''
            | n # rest \<Rightarrow> if n \<noteq> [] then n else str ''Traditional Chinese'')
      else str ''Traditional Chinese'')"

definition developmentFallback :: "env \<Rightarrow> bool" where
  "developmentFallback e =
     (NODE_ENV e = Some (str ''development'') \<and> ENABLE_OCR_FALLBACK e = Some (str ''true''))"

text \<open>\<open>processAncientText\<close>: \<open>Inl\<close> is the thrown error (its message).\<close>

definition processAncientText :: "env \<Rightarrow> jsstring \<Rightarrow> db \<Rightarrow> (jsstring + ProcessingResult) \<times> call list" where
  "processAncientText e imagePath d =
     (let (ocrResult, calls) = extractTextFromImage e imagePath in
      if ocrText ocrResult = [] then
        (if developmentFallback e then
           (Inr \<lparr>extractedText = [36947, 27861, 33258, 28982], pr_glyphs = [],
                 scriptType = Some (str ''Traditional Chinese''), pr_confidence = 0.50,
                 pr_method = str ''fallback-dev''\<rparr>, calls)
         else
           (Inl (str ''Failed to extract text from image.'' @
                 (if nonEmpty (ocrError ocrResult) then str '' '' @ orElse (ocrError ocrResult) [] else [])),
            calls))
      else
        (let (translationResult, calls1) = generateTranslation e (ocrText ocrResult) [];
             (glyphs, calls2) = matchGlyphs e (ocrText ocrResult) d (Some (translation translationResult))
         in (Inr \<lparr>extractedText = ocrText ocrResult, pr_glyphs = glyphs,
                   scriptType = Some (detectScriptType d glyphs),
                   pr_confidence = translationConfidence translationResult,
                   pr_method = methodName (ocrMethod ocrResult)\<rparr>,
             calls @ calls1 @ calls2)))"

text \<open>
  The handler \<open>POST\<close> of the processing route, up to the end of the \<open>try\<close> around
  \<open>processAncientText\<close>: it has answered with a status code and a message, or it goes
  on to persist the result.
\<close>

datatype 'a handled = Responded nat jsstring | Proceeds 'a

definition setUploadStatus :: "nat \<Rightarrow> processingStatus \<Rightarrow> db \<Rightarrow> db" where
  "setUploadStatus uploadId st d =
     d\<lparr>db_upload := map (\<lambda>u. if upload_id u = uploadId then u\<lparr>upload_status := st\<rparr> else u) (db_upload d)\<rparr>"

definition POST_process :: "env \<Rightarrow> db \<Rightarrow> nat option \<Rightarrow> ProcessingResult handled \<times> db" where
  "POST_process e d uploadId =
     (case uploadId of
        None \<Rightarrow> (Responded 400 (str ''Upload ID is required''), d)
      | Some uid \<Rightarrow>
          (case find (\<lambda>u. upload_id u = uid) (db_upload d) of
             None \<Rightarrow> (Responded 404 (str ''Upload not found''), d)
           | Some upload \<Rightarrow>
               (let d1 = setUploadStatus uid PROCESSING d;
                    d2 = d1\<lparr>db_glyphMatch := filter (\<lambda>m. gm_uploadId m \<noteq> uid) (db_glyphMatch d1)\<rparr>;
                    d3 = d2\<lparr>db_translation := filter (\<lambda>t. tr_uploadId t \<noteq> uid) (db_translation d2)\<rparr>
                in case fst (processAncientText e (upload_filePath upload) d3) of
                     Inl msg \<Rightarrow>
                       (Responded 500 (str ''Failed to process image with AI''), setUploadStatus uid FAILED d3)
                   | Inr processingResult \<Rightarrow> (Proceeds processingResult, d3))))"

section \<open>Batch processing and reconstruction versions\<close>

text \<open>
  The module \<open>grm\<close> is imported, not part of the sources at hand: its two functions are
  parameters. \<open>batchReconstructGlyphs\<close> returns its results or throws (\<open>Inl\<close>).
\<close>

record candidate =
  cand_symbol :: jsstring
  cand_confidence :: real
  cand_boundingBox :: "json option"

record grm =
  needsReconstruction :: "candidate \<Rightarrow> bool"
  batchReconstructGlyphs :: "jsstring \<Rightarrow> candidate list \<Rightarrow> jsstring option \<Rightarrow> jsstring + ReconstructionResult list"

datatype entryStatus = Success | Failed

record batchEntry =
  entry_uploadId :: nat
  entry_status :: entryStatus
  entry_error :: "jsstring option"
  glyphsProcessed :: "nat option"
  reconstructions :: "nat option"

text \<open>\<open>results.reduce((sum, r) => sum + r.confidence, 0) / results.length\<close>; \<open>0 / 0\<close>
  is \<open>NaN\<close>.\<close>

definition versionConfidence :: "ReconstructionResult list \<Rightarrow> real option" where
  "versionConfidence reconstructionResults =
     (if length reconstructionResults = 0 then None
      else Some (foldl (\<lambda>sum r. sum + rr_confidence r) 0 reconstructionResults
                 / real (length reconstructionResults)))"

definition createVersion :: "nat \<Rightarrow> nat \<Rightarrow> ReconstructionResult list \<Rightarrow> db \<Rightarrow> db" where
  "createVersion uploadId n reconstructionResults d =
     d\<lparr>db_reconstructionVersion := db_reconstructionVersion d @
          [\<lparr>rv_uploadId = uploadId, versionNumber = n,
            reconstructedGlyphs = reconstructionResults,
            rv_confidence = versionConfidence reconstructionResults,
            rv_method = ''gemini-grm''\<rparr>]\<rparr>"

text \<open>\<open>upload.glyphs\<close> with \<open>include: { glyph: true }\<close>: the matches of the upload, each
  with its glyph.\<close>

definition uploadGlyphs :: "db \<Rightarrow> nat \<Rightarrow> (glyphMatchRow \<times> glyphRow option) list" where
  "uploadGlyphs d uploadId =
     map (\<lambda>m. (m, find (\<lambda>g. glyph_id g = gm_glyphId m) (db_glyph d)))
       (filter (\<lambda>m. gm_uploadId m = uploadId) (db_glyphMatch d))"

definition zeroBox :: json where
  "zeroBox = JObj [(str ''x'', JNum 0), (str ''y'', JNum 0), (str ''width'', JNum 0), (str ''height'', JNum 0)]"

text \<open>The branch of \<open>processUpload\<close> for an upload that is already \<open>COMPLETED\<close>.\<close>

definition reprocessCompleted ::
    "grm \<Rightarrow> db \<Rightarrow> uploadRow \<Rightarrow> bool \<Rightarrow> (jsstring + batchEntry) \<times> db" where
  "reprocessCompleted g d upload enableReconstruction =
     (let glyphs = uploadGlyphs d (upload_id upload);
          done = \<lparr>entry_uploadId = upload_id upload, entry_status = Success, entry_error = None,
                  glyphsProcessed = Some (length glyphs), reconstructions = Some 0\<rparr>
      in if enableReconstruction then
           (if list_ex (\<lambda>(m, gl). gl = None) glyphs then (Inl (cannotReadNull ''symbol''), d)
            else
              (let candidates = List.map_filter
                     (\<lambda>(m, gl). case gl of
                          None \<Rightarrow> None
                        | Some gr \<Rightarrow>
                            if needsReconstruction g
                                 \<lparr>cand_symbol = glyph_symbol gr, cand_confidence = gm_confidence m,
                                  cand_boundingBox = gm_boundingBox m\<rparr>
                            then Some \<lparr>cand_symbol = glyph_symbol gr, cand_confidence = gm_confidence m,
                                       cand_boundingBox =
                                         Some (case gm_boundingBox m of None \<Rightarrow> zeroBox | Some b \<Rightarrow> b)\<rparr>
                            else None) glyphs
               in if length candidates > 0 then
                    (case batchReconstructGlyphs g (upload_filePath upload) candidates (upload_scriptType upload) of
                       Inl msg \<Rightarrow> (Inl msg, d)
                     | Inr reconstructionResults \<Rightarrow>
                         (let n = length (filter (\<lambda>v. rv_uploadId v = upload_id upload)
                                            (db_reconstructionVersion d)) + 1
                          in (Inr (done\<lparr>reconstructions := Some (length reconstructionResults)\<rparr>),
                              createVersion (upload_id upload) n reconstructionResults d)))
                  else (Inr done, d)))
         else (Inr done, d))"

text \<open>The loop of \<open>processUpload\<close> that saves the glyphs of a result.\<close>

fun saveGlyphs :: "ProcessingResult \<Rightarrow> nat \<Rightarrow> GlyphMatch list \<Rightarrow> nat \<Rightarrow> db \<Rightarrow> nat \<times> db" where
  "saveGlyphs result uploadId [] n d = (n, d)"
| "saveGlyphs result uploadId (glyph # rest) n d =
     (let (gid, d1) =
            (case find (\<lambda>g. glyph_symbol g = symbol glyph) (db_glyph d) of
               Some dbGlyph \<Rightarrow> (glyph_id dbGlyph, d)
             | None \<Rightarrow>
                 (let wanted = orElse (scriptType result) (str ''Unknown'');
                      (sid, d0) =
                        (case find (\<lambda>s. script_name s = wanted) (db_ancientScript d) of
                           Some s \<Rightarrow> (script_id s, d)
                         | None \<Rightarrow>
                             (db_nextId d,
                              d\<lparr>db_ancientScript := db_ancientScript d @
                                    [\<lparr>script_id = db_nextId d, script_name = wanted\<rparr>],
                                db_nextId := db_nextId d + 1\<rparr>))
                  in (db_nextId d0,
                      d0\<lparr>db_glyph := db_glyph d0 @
                            [\<lparr>glyph_id = db_nextId d0, glyph_scriptId = sid, glyph_symbol = symbol glyph,
                              glyph_name = None, glyph_description = meaning glyph,
                              glyph_confidence = confidence glyph\<rparr>],
                         db_nextId := db_nextId d0 + 1\<rparr>)));
          d2 = d1\<lparr>db_glyphMatch := db_glyphMatch d1 @
                    [\<lparr>gm_uploadId = uploadId, gm_glyphId = gid, gm_confidence = confidence glyph,
                      gm_boundingBox = Some (JNum (real (position glyph))),
                      gm_position = Some n\<rparr>]\<rparr>
      in saveGlyphs result uploadId rest (n + 1) d2)"

text \<open>The branch of \<open>processUpload\<close> that runs the pipeline. \<open>result.translation\<close> is not
  a property of a \<open>ProcessingResult\<close>, so no translation is saved.\<close>

definition processFresh ::
    "env \<Rightarrow> grm \<Rightarrow> db \<Rightarrow> uploadRow \<Rightarrow> bool \<Rightarrow> (jsstring + batchEntry) \<times> db" where
  "processFresh e g d upload enableReconstruction =
     (let uploadId = upload_id upload;
          d1 = setUploadStatus uploadId PROCESSING d
      in case fst (processAncientText e (upload_filePath upload) d1) of
           Inl msg \<Rightarrow> (Inl msg, setUploadStatus uploadId FAILED d1)
         | Inr result \<Rightarrow>
             (let d2 = d1\<lparr>db_upload := map (\<lambda>u. if upload_id u = uploadId
                                                 then u\<lparr>upload_status := COMPLETED, upload_scriptType := scriptType result\<rparr>
                                                 else u) (db_upload d1)\<rparr>;
                  (n, d3) = saveGlyphs result uploadId (pr_glyphs result) 0 d2;
                  done = \<lparr>entry_uploadId = uploadId, entry_status = Success, entry_error = None,
                          glyphsProcessed = Some n, reconstructions = Some 0\<rparr>
              in if enableReconstruction then
                   (let candidates = filter
                          (\<lambda>gl. needsReconstruction g
                                  \<lparr>cand_symbol = symbol gl, cand_confidence = confidence gl,
                                   cand_boundingBox = Some (JNum (real (position gl)))\<rparr>) (pr_glyphs result)
                    in if length candidates > 0 then
                         (case batchReconstructGlyphs g (upload_filePath upload)
                                 (map (\<lambda>gl. \<lparr>cand_symbol = symbol gl, cand_confidence = confidence gl,
                                             cand_boundingBox = Some (JNum (real (position gl)))\<rparr>) candidates)
                                 (scriptType result) of
                            Inl msg \<Rightarrow> (Inl msg, setUploadStatus uploadId FAILED d3)
                          | Inr reconstructionResults \<Rightarrow>
                              (Inr (done\<lparr>reconstructions := Some (length reconstructionResults)\<rparr>),
                               createVersion uploadId 1 reconstructionResults d3))
                       else (Inr done, d3))
                 else (Inr done, d3)))"

definition processUpload ::
    "env \<Rightarrow> grm \<Rightarrow> db \<Rightarrow> nat \<Rightarrow> bool \<Rightarrow> (jsstring + batchEntry) \<times> db" where
  "processUpload e g d uploadId enableReconstruction =
     (case find (\<lambda>u. upload_id u = uploadId) (db_upload d) of
        None \<Rightarrow> (Inl (str ''Upload not found''), d)
      | Some upload \<Rightarrow>
          if upload_status upload = COMPLETED then reprocessCompleted g d upload enableReconstruction
          else processFresh e g d upload enableReconstruction)"

text \<open>\<open>xs.slice(i, j)\<close> for integers \<open>i\<close> and \<open>j\<close>.\<close>

definition sliceIndex :: "nat \<Rightarrow> int \<Rightarrow> nat" where
  "sliceIndex n i = (if i < 0 then nat (max (int n + i) 0) else min (nat i) n)"

definition slice :: "'a list \<Rightarrow> int \<Rightarrow> int \<Rightarrow> 'a list" where
  "slice xs i j = take (sliceIndex (length xs) j - sliceIndex (length xs) i) (drop (sliceIndex (length xs) i) xs)"

text \<open>The loop that cuts the uploads into batches; it does not end when
  \<open>maxConcurrent\<close> is not positive.\<close>

partial_function (option) makeBatches :: "uploadRow list \<Rightarrow> int \<Rightarrow> int \<Rightarrow> nat list list \<Rightarrow> nat list list option" where
  "makeBatches uploads maxConcurrent i batches =
     (if i < int (length uploads) then
        makeBatches uploads maxConcurrent (i + maxConcurrent)
          (batches @ [map upload_id (slice uploads i (i + maxConcurrent))])
      else Some batches)"

text \<open>\<open>Promise.allSettled(batch.map(processUpload))\<close>: the outcome of every run of a
  batch, the runs of a batch taken in the order of the batch.\<close>

fun allSettled :: "env \<Rightarrow> grm \<Rightarrow> bool \<Rightarrow> db \<Rightarrow> nat list \<Rightarrow> (jsstring + batchEntry) list \<times> db" where
  "allSettled e g enableReconstruction d [] = ([], d)"
| "allSettled e g enableReconstruction d (uploadId # rest) =
     (let (outcome, d1) = processUpload e g d uploadId enableReconstruction;
          (outcomes, d2) = allSettled e g enableReconstruction d1 rest
      in (outcome # outcomes, d2))"

definition failedEntry :: "nat \<Rightarrow> jsstring \<Rightarrow> jsstring \<Rightarrow> batchEntry" where
  "failedEntry uploadId msg dflt =
     \<lparr>entry_uploadId = uploadId, entry_status = Failed, entry_error = Some (orElse (Some msg) dflt),
      glyphsProcessed = None, reconstructions = None\<rparr>"

definition settledEntry :: "nat \<times> (jsstring + batchEntry) \<Rightarrow> batchEntry" where
  "settledEntry p =
     (case snd p of
        Inr v \<Rightarrow> v
      | Inl msg \<Rightarrow> failedEntry (fst p) msg (str ''Unknown error''))"

fun runBatches :: "env \<Rightarrow> grm \<Rightarrow> bool \<Rightarrow> db \<Rightarrow> nat list list \<Rightarrow> batchEntry list \<times> db" where
  "runBatches e g enableReconstruction d [] = ([], d)"
| "runBatches e g enableReconstruction d (batch # rest) =
     (let (batchResults, d1) = allSettled e g enableReconstruction d batch;
          (results, d2) = runBatches e g enableReconstruction d1 rest
      in (map settledEntry (zip batch batchResults) @ results, d2))"

fun runSequentially :: "env \<Rightarrow> grm \<Rightarrow> bool \<Rightarrow> db \<Rightarrow> uploadRow list \<Rightarrow> batchEntry list \<times> db" where
  "runSequentially e g enableReconstruction d [] = ([], d)"
| "runSequentially e g enableReconstruction d (upload # rest) =
     (let (outcome, d1) = processUpload e g d (upload_id upload) enableReconstruction;
          entry = (case outcome of
                     Inr result \<Rightarrow> result
                   | Inl msg \<Rightarrow> failedEntry (upload_id upload) msg (str ''Processing failed''));
          (results, d2) = runSequentially e g enableReconstruction d1 rest
      in (entry # results, d2))"

text \<open>The request of the batch route: the session's user, the \<open>uploadIds\<close> of the body
  (\<open>None\<close> when absent or not an array) and the three options, each with its default.\<close>

record batchRequest =
  sessionUser :: "nat option"
  uploadIds :: "nat list option"
  parallel :: "bool option"
  enableReconstruction :: "bool option"
  maxConcurrent :: "int option"

datatype batchResponse =
    Unauthorized
  | BadRequest
  | NotFound
  | Processed nat nat "batchEntry list"

text \<open>The handler \<open>POST\<close> of the batch route; \<open>None\<close> when it does not return.\<close>

definition POST_batch :: "env \<Rightarrow> grm \<Rightarrow> db \<Rightarrow> batchRequest \<Rightarrow> (batchResponse \<times> db) option" where
  "POST_batch e g d request =
     (case sessionUser request of
        None \<Rightarrow> Some (Unauthorized, d)
      | Some userId \<Rightarrow>
          (case uploadIds request of
             None \<Rightarrow> Some (BadRequest, d)
           | Some ids \<Rightarrow>
               if length ids = 0 then Some (BadRequest, d)
               else
                 (let par = (case parallel request of None \<Rightarrow> False | Some b \<Rightarrow> b);
                      enable = (case enableReconstruction request of None \<Rightarrow> True | Some b \<Rightarrow> b);
                      maxC = (case maxConcurrent request of None \<Rightarrow> 3 | Some n \<Rightarrow> n);
                      uploads = filter (\<lambda>u. upload_id u \<in> set ids \<and> upload_userId u = userId) (db_upload d)
                  in if length uploads = 0 then Some (NotFound, d)
                     else
                       (case (if par then map_option (runBatches e g enable d) (makeBatches uploads maxC 0 [])
                              else Some (runSequentially e g enable d uploads)) of
                          None \<Rightarrow> None
                        | Some (results, d') \<Rightarrow>
                            Some (Processed (length (filter (\<lambda>r. entry_status r = Success) results))
                                            (length (filter (\<lambda>r. entry_status r = Failed) results))
                                            results, d')))))"

section \<open>Notions of the specification\<close>

text \<open>The arithmetic mean of the specification: the sum of the members divided by
  their count; there is none for no member.\<close>

definition arithmeticMean :: "real list \<Rightarrow> real option" where
  "arithmeticMean xs = (if xs = [] then None else Some (sum_list xs / real (length xs)))"

text \<open>
  The reconstruction batch of a run of \<open>processUpload\<close>: the results that
  \<open>batchReconstructGlyphs\<close> returns to the run, when the run calls it. The run calls it
  when reconstruction is enabled and there are candidates: for a completed upload the
  stored matches that \<open>needsReconstruction\<close> flags, for another upload the flagged
  glyphs of the result of the pipeline. There is no batch when the upload is not found,
  when the run throws before the call, or when the call throws. \<open>versionOf\<close> is the
  upload, the members and the confidence of a version.
\<close>

definition completedCandidates :: "grm \<Rightarrow> db \<Rightarrow> uploadRow \<Rightarrow> candidate list" where
  "completedCandidates g d upload =
     List.map_filter
       (\<lambda>(m, gl). case gl of
            None \<Rightarrow> None
          | Some gr \<Rightarrow>
              if needsReconstruction g
                   \<lparr>cand_symbol = glyph_symbol gr, cand_confidence = gm_confidence m,
                    cand_boundingBox = gm_boundingBox m\<rparr>
              then Some \<lparr>cand_symbol = glyph_symbol gr, cand_confidence = gm_confidence m,
                         cand_boundingBox = Some (case gm_boundingBox m of None \<Rightarrow> zeroBox | Some b \<Rightarrow> b)\<rparr>
              else None)
       (uploadGlyphs d (upload_id upload))"

definition freshCandidates :: "grm \<Rightarrow> ProcessingResult \<Rightarrow> candidate list" where
  "freshCandidates g result =
     map (\<lambda>gl. \<lparr>cand_symbol = symbol gl, cand_confidence = confidence gl,
                 cand_boundingBox = Some (JNum (real (position gl)))\<rparr>)
       (filter (\<lambda>gl. needsReconstruction g
                       \<lparr>cand_symbol = symbol gl, cand_confidence = confidence gl,
                        cand_boundingBox = Some (JNum (real (position gl)))\<rparr>) (pr_glyphs result))"

definition returned :: "jsstring + ReconstructionResult list \<Rightarrow> ReconstructionResult list option" where
  "returned r = (case r of Inl msg \<Rightarrow> None | Inr rs \<Rightarrow> Some rs)"

definition reconstructionBatch ::
    "env \<Rightarrow> grm \<Rightarrow> db \<Rightarrow> nat \<Rightarrow> bool \<Rightarrow> ReconstructionResult list option" where
  "reconstructionBatch e g d uploadId enable =
     (case find (\<lambda>u. upload_id u = uploadId) (db_upload d) of
        None \<Rightarrow> None
      | Some upload \<Rightarrow>
          if \<not> enable then None
          else if upload_status upload = COMPLETED then
            (if list_ex (\<lambda>(m, gl). gl = None) (uploadGlyphs d uploadId) then None
             else if completedCandidates g d upload = [] then None
             else returned (batchReconstructGlyphs g (upload_filePath upload)
                              (completedCandidates g d upload) (upload_scriptType upload)))
          else
            (case fst (processAncientText e (upload_filePath upload)
                         (setUploadStatus uploadId PROCESSING d)) of
               Inl msg \<Rightarrow> None
             | Inr result \<Rightarrow>
                 if freshCandidates g result = [] then None
                 else returned (batchReconstructGlyphs g (upload_filePath upload)
                                  (freshCandidates g result) (scriptType result))))"

definition versionOf :: "reconstructionVersionRow \<Rightarrow> nat \<times> ReconstructionResult list \<times> real option" where
  "versionOf v = (rv_uploadId v, reconstructedGlyphs v, rv_confidence v)"


text \<open>
  The notions of the OCR fallback policy. \<open>reply e config\<close> is the reply to the request
  for a configuration, \<open>requestOf config\<close> that request. \<open>replyText r\<close> is the text a
  reply carries: the reply has a success status, a body that parses, and a non-empty
  string as candidate text. Every other reply is a failure of its configuration, and
  \<open>capturedError\<close> is the error it leaves in \<open>lastError\<close>: a rejected or throwing request
  and an error status other than 404 and 429 are captured, the others leave \<open>lastError\<close>
  as it is. \<open>lastCaptured\<close> is the last error captured over a list of configurations.
\<close>

definition reply :: "env \<Rightarrow> string \<times> string \<Rightarrow> response" where
  "reply e config = httpsRequest e (OcrCall (fst config) (snd config))"

definition requestOf :: "string \<times> string \<Rightarrow> call" where
  "requestOf config = OcrCall (fst config) (snd config)"

definition replyText :: "response \<Rightarrow> jsstring option" where
  "replyText r =
     (case r of
        Rejected msg \<Rightarrow> None
      | Resolved status parsed \<Rightarrow>
          if ok status then
            (case parsed of
               Inl msg \<Rightarrow> None
             | Inr data \<Rightarrow>
                 (case candidateText data of
                    Inr (Some (JStr t)) \<Rightarrow> if t \<noteq> [] then Some t else None
                  | other \<Rightarrow> None))
          else None)"

definition capturedError :: "env \<Rightarrow> jsstring option \<Rightarrow> response \<Rightarrow> jsstring option" where
  "capturedError e lastError r =
     (case r of
        Rejected msg \<Rightarrow> Some msg
      | Resolved status parsed \<Rightarrow>
          if status = 404 \<or> status = 429 then lastError
          else if \<not> ok status then Some (str ''Gemini API error: '' @ errorDetails e status parsed)
          else (case parsed of
                  Inl msg \<Rightarrow> Some msg
                | Inr data \<Rightarrow>
                    (case candidateText data of
                       Inl msg \<Rightarrow> Some msg
                     | Inr v \<Rightarrow>
                         if truthy (orEmpty v) then Some (notAFunction ''extractedText.trim'')
                         else lastError)))"

definition lastCaptured :: "env \<Rightarrow> jsstring option \<Rightarrow> (string \<times> string) list \<Rightarrow> jsstring option" where
  "lastCaptured e lastError configs = foldl (\<lambda>le c. capturedError e le (reply e c)) lastError configs"

definition failureMessage :: jsstring where
  "failureMessage = str ''All OCR methods failed. Please ensure the image is clear and contains readable text.''"

text \<open>
  The tiered confidence rule of the glyph matcher, in the words of the specification:
  0.85 with a fresh meaning from the semantic service; else, for a character found in
  the store, the larger of the stored confidence and 0.75 when the store holds a meaning
  that is not a placeholder, and 0.60 otherwise; else, for a character absent from the
  store, 0.70 when the last-resort lookup succeeds and 0.60 when it does not. A character
  is found in the store when the store lookup of the matcher (the exact match, then the
  relaxed one) returns a record.
\<close>

definition hasStoredMeaning :: "glyphRow \<Rightarrow> bool" where
  "hasStoredMeaning g = (nonEmpty (dbMeaningOf g) \<and> \<not> isPlaceholder (dbMeaningOf g))"

definition tieredConfidence :: "bool \<Rightarrow> glyphRow option \<Rightarrow> bool \<Rightarrow> real" where
  "tieredConfidence aiMeaningAvailable stored lastResortSucceeds =
     (if aiMeaningAvailable then 0.85
      else (case stored of
              Some g \<Rightarrow> if hasStoredMeaning g then max (glyph_confidence g) 0.75 else 0.60
            | None \<Rightarrow> if lastResortSucceeds then 0.70 else 0.60))"

text \<open>The qualifying characters of a text, each with its position: the characters of
  the text without white space that are not in the punctuation set.\<close>

definition qualifying :: "jsstring \<Rightarrow> (nat \<times> jsstring) list" where
  "qualifying t =
     filter (\<lambda>(i, c). \<not> isPunctuation c)
       (zip [0..<length (arrayFrom (stripWhitespace t))] (arrayFrom (stripWhitespace t)))"

text \<open>The entry of the phrase table for the sample text.\<close>

definition sampleTranslation :: jsstring where
  "sampleTranslation = str ''The Tao follows nature - A fundamental concept in Taoist philosophy suggesting that the natural way of things is the best way.''"

text \<open>The answer of the translation generator to an empty text, and the mean of the
  confidences of a list of matches, with its default 0.70 for the empty list.\<close>

definition unableMessage :: jsstring where
  "unableMessage = str ''Unable to extract text from image. Please ensure the image is clear and contains readable text.''"

definition meanConfidence :: "GlyphMatch list \<Rightarrow> real" where
  "meanConfidence gs = (if gs = [] then 0.70 else sum_list (map confidence gs) / real (length gs))"

text \<open>
  The notions of the batch route. The runs of a batch request are the calls of
  \<open>processUpload\<close> for its uploads, in their order, each on the store the earlier ones
  left; their outcomes are \<open>fst (allSettled ...)\<close>. \<open>sequentialEntry\<close> is the entry that
  the sequential loop records for an upload and the outcome of its run. \<open>ownOutcome\<close>
  says that a run that returns reports success for its own upload. \<open>aggregated\<close> says
  that a response lists exactly one entry for each upload, in order: the value of the run
  when it returned, a failed entry when it threw, with the two counts of the response
  being the numbers of returning and of throwing runs.
\<close>

definition sequentialEntry :: "nat \<times> (jsstring + batchEntry) \<Rightarrow> batchEntry" where
  "sequentialEntry p =
     (case snd p of
        Inr v \<Rightarrow> v
      | Inl msg \<Rightarrow> failedEntry (fst p) msg (str ''Processing failed''))"

definition ownOutcome :: "nat \<Rightarrow> jsstring + batchEntry \<Rightarrow> bool" where
  "ownOutcome uploadId outcome =
     (case outcome of Inl msg \<Rightarrow> True | Inr v \<Rightarrow> entry_uploadId v = uploadId \<and> entry_status v = Success)"

definition aggregated :: "(jsstring + batchEntry) list \<Rightarrow> nat list \<Rightarrow> batchResponse \<Rightarrow> bool" where
  "aggregated outcomes ids response =
     (case response of
        Processed np nf results \<Rightarrow>
          map entry_uploadId results = ids \<and>
          map entry_status results = map (\<lambda>outcome. if isl outcome then Failed else Success) outcomes \<and>
          list_all2 (\<lambda>outcome r. case outcome of Inr v \<Rightarrow> r = v | Inl msg \<Rightarrow> True) outcomes results \<and>
          np = length (filter (\<lambda>outcome. \<not> isl outcome) outcomes) \<and>
          nf = length (filter isl outcomes)
      | other \<Rightarrow> False)"

section \<open>Worked configurations\<close>

text \<open>Concrete environments and stores on which the statements below are exercised.
  \<open>geminiReply t\<close> is a reply body whose first candidate carries the text \<open>t\<close>.\<close>

definition geminiReply :: "jsstring \<Rightarrow> json" where
  "geminiReply t = JObj [(str ''candidates'',
       JArr [JObj [(str ''content'', JObj [(str ''parts'', JArr [JObj [(str ''text'', JStr t)]])])]])]"

text \<open>The path of an uploaded image.\<close>

definition samplePath :: jsstring where
  "samplePath = str ''uploads/stele.png''"

text \<open>A configured key, and a network on which every request is rejected.\<close>

definition offline :: env where
  "offline = \<lparr>GOOGLE_GEMINI_API_KEY = Some (str ''key''), NODE_ENV = None, ENABLE_OCR_FALLBACK = None,
      readFile = (\<lambda>p. Inr ()), httpsRequest = (\<lambda>c. Rejected (str ''offline'')),
      toLowerCase = (\<lambda>s. s), numberToString = (\<lambda>n. []), meaningEntries = (\<lambda>t. [])\<rparr>"

text \<open>Only the first OCR configuration answers, with the four characters of the sample
  text; every other request is rejected.\<close>

definition ocrOnly :: env where
  "ocrOnly = offline\<lparr>httpsRequest := (\<lambda>c. if c = OcrCall ''v1beta'' ''gemini-2.5-flash''
        then Resolved 200 (Inr (geminiReply [36947, 27861, 33258, 28982])) else Rejected (str ''offline''))\<rparr>"

text \<open>A reconstruction module that flags a glyph by its confidence alone and returns
  one reconstruction for every candidate of a batch.\<close>

definition byConfidence :: grm where
  "byConfidence = \<lparr>needsReconstruction = (\<lambda>c. cand_confidence c < 0.7),
      batchReconstructGlyphs = (\<lambda>p cs st. Inr (map (\<lambda>c.
          \<lparr>reconstructedGlyph = cand_symbol c,
            rr_confidence = (if cand_symbol c = [36947] then 0.9 else 0.7)\<rparr>) cs))\<rparr>"

text \<open>A store with one upload whose last run failed and which has one reconstruction
  version from an earlier run.\<close>

definition failedStore :: db where
  "failedStore = \<lparr>db_upload = [\<lparr>upload_id = 41, upload_userId = 7, upload_filePath = samplePath, upload_status = FAILED, upload_scriptType = None\<rparr>],
      db_ancientScript = [], db_glyph = [], db_glyphMatch = [], db_translation = [],
      db_reconstructionVersion = [\<lparr>rv_uploadId = 41, versionNumber = 1,
          reconstructedGlyphs = [\<lparr>reconstructedGlyph = [36947], rr_confidence = 0.5\<rparr>],
          rv_confidence = Some 0.5, rv_method = ''gemini-grm''\<rparr>],
      db_nextId = 100\<rparr>"

text \<open>A store with one completed upload that has three matches, two of them of low
  confidence, and one reconstruction version.\<close>

definition completedStore :: db where
  "completedStore = \<lparr>db_upload = [\<lparr>upload_id = 41, upload_userId = 7, upload_filePath = samplePath,
                                      upload_status = COMPLETED, upload_scriptType = None\<rparr>],
      db_ancientScript = [\<lparr>script_id = 5, script_name = str ''Traditional Chinese''\<rparr>],
      db_glyph = [\<lparr>glyph_id = 11, glyph_scriptId = 5, glyph_symbol = [36947], glyph_name = None,
                    glyph_description = None, glyph_confidence = 0.6\<rparr>,
                  \<lparr>glyph_id = 12, glyph_scriptId = 5, glyph_symbol = [27861], glyph_name = None,
                    glyph_description = None, glyph_confidence = 0.5\<rparr>,
                  \<lparr>glyph_id = 13, glyph_scriptId = 5, glyph_symbol = [33258], glyph_name = None,
                    glyph_description = Some (str ''self''), glyph_confidence = 0.85\<rparr>],
      db_glyphMatch = [\<lparr>gm_uploadId = 41, gm_glyphId = 11, gm_confidence = 0.6, gm_boundingBox = None,
                         gm_position = Some 0\<rparr>,
                       \<lparr>gm_uploadId = 41, gm_glyphId = 12, gm_confidence = 0.5, gm_boundingBox = None,
                         gm_position = Some 1\<rparr>,
                       \<lparr>gm_uploadId = 41, gm_glyphId = 13, gm_confidence = 0.85, gm_boundingBox = None,
                         gm_position = Some 2\<rparr>],
      db_translation = [],
      db_reconstructionVersion = [\<lparr>rv_uploadId = 41, versionNumber = 1,
          reconstructedGlyphs = [\<lparr>reconstructedGlyph = [36947], rr_confidence = 0.5\<rparr>],
          rv_confidence = Some 0.5, rv_method = ''gemini-grm''\<rparr>],
      db_nextId = 100\<rparr>"

text \<open>The matches of the sample text when nothing is known about its characters.\<close>

definition sampleGlyphs :: "GlyphMatch list" where
  "sampleGlyphs = map (\<lambda>(i, c). \<lparr>symbol = [c], confidence = 0.60, position = i, boundingBox = Some (placedBox i),
                      meaning = Some (str ''Character recognized but meaning not available'')\<rparr>)
       [(0, 36947), (1, 27861), (2, 33258), (3, 28982)]"

text \<open>The first OCR configuration is not found, the second answers with the sample
  text; every other request is rejected.\<close>

definition secondAnswers :: env where
  "secondAnswers = offline\<lparr>httpsRequest := (\<lambda>c.
        if c = OcrCall ''v1beta'' ''gemini-2.5-flash'' then Resolved 404 (Inl [])
        else if c = OcrCall ''v1'' ''gemini-2.5-flash''
        then Resolved 200 (Inr (geminiReply [36947, 27861, 33258, 28982]))
        else Rejected (str ''offline''))\<rparr>"

text \<open>The first OCR configuration answers with a single space.\<close>

definition blankAnswer :: env where
  "blankAnswer = offline\<lparr>httpsRequest := (\<lambda>c.
        if c = OcrCall ''v1beta'' ''gemini-2.5-flash'' then Resolved 200 (Inr (geminiReply [32]))
        else Rejected (str ''offline''))\<rparr>"

text \<open>The bulk request for meanings yields a meaning for the first character of the
  sample text, and the last-resort request for position 3 succeeds.\<close>

definition tiersEnv :: env where
  "tiersEnv = offline\<lparr>
      httpsRequest := (\<lambda>c.
        if c = MeaningsCall 800 then Resolved 200 (Inr (geminiReply (str ''meanings'')))
        else if c = CharMeaningCall 3 then Resolved 200 (Inr (geminiReply (str ''so'')))
        else Rejected (str ''offline'')),
      meaningEntries := (\<lambda>t. [([36947], str ''way'')])\<rparr>"

text \<open>A store that knows the second character of the sample text with a meaning and the
  third with a placeholder.\<close>

definition tiersStore :: db where
  "tiersStore = \<lparr>db_upload = [], db_ancientScript = [],
      db_glyph = [\<lparr>glyph_id = 11, glyph_scriptId = 5, glyph_symbol = [27861], glyph_name = None,
                    glyph_description = Some (str ''law''), glyph_confidence = 0.5\<rparr>,
                  \<lparr>glyph_id = 12, glyph_scriptId = 5, glyph_symbol = [33258], glyph_name = Some [33258],
                    glyph_description = Some (str ''Character: self''), glyph_confidence = 0.9\<rparr>],
      db_glyphMatch = [], db_translation = [], db_reconstructionVersion = [], db_nextId = 13\<rparr>"

text \<open>No Gemini key is configured.\<close>

definition noKey :: env where
  "noKey = offline\<lparr>GOOGLE_GEMINI_API_KEY := None\<rparr>"

text \<open>The key is set to the empty string, and the first OCR configuration would
  answer.\<close>

definition noKeyOnline :: env where
  "noKeyOnline = ocrOnly\<lparr>GOOGLE_GEMINI_API_KEY := Some []\<rparr>"

text \<open>The first OCR configuration and the first translation configuration answer.\<close>

definition translationAnswers :: env where
  "translationAnswers = offline\<lparr>httpsRequest := (\<lambda>c.
        if c = OcrCall ''v1beta'' ''gemini-2.5-flash''
        then Resolved 200 (Inr (geminiReply [36947, 27861, 33258, 28982]))
        else if c = TranslateCall ''v1beta'' ''gemini-2.5-flash''
        then Resolved 200 (Inr (geminiReply (str ''Translation: The Way follows nature'')))
        else Rejected (str ''offline''))\<rparr>"

text \<open>A development setup with the OCR fallback enabled, on a network without
  answers.\<close>

definition devFallback :: env where
  "devFallback = offline\<lparr>NODE_ENV := Some (str ''development''), ENABLE_OCR_FALLBACK := Some (str ''true'')\<rparr>"

text \<open>Five uploads of one user, the third of which is still to be processed, and a
  request to process them in parallel, two at a time.\<close>

definition fiveUploads :: db where
  "fiveUploads = \<lparr>db_upload =
       [\<lparr>upload_id = 41, upload_userId = 7, upload_filePath = samplePath, upload_status = COMPLETED, upload_scriptType = None\<rparr>,
        \<lparr>upload_id = 42, upload_userId = 7, upload_filePath = samplePath, upload_status = COMPLETED, upload_scriptType = None\<rparr>,
        \<lparr>upload_id = 43, upload_userId = 7, upload_filePath = samplePath, upload_status = PENDING, upload_scriptType = None\<rparr>,
        \<lparr>upload_id = 44, upload_userId = 7, upload_filePath = samplePath, upload_status = COMPLETED, upload_scriptType = None\<rparr>,
        \<lparr>upload_id = 45, upload_userId = 7, upload_filePath = samplePath, upload_status = COMPLETED, upload_scriptType = None\<rparr>],
      db_ancientScript = [], db_glyph = [], db_glyphMatch = [], db_translation = [],
      db_reconstructionVersion = [], db_nextId = 100\<rparr>"

definition fiveRequest :: batchRequest where
  "fiveRequest = \<lparr>sessionUser = Some 7, uploadIds = Some [41, 42, 43, 44, 45], parallel = Some True,
      enableReconstruction = None, maxConcurrent = Some 2\<rparr>"

definition finished :: "nat \<Rightarrow> batchEntry" where
  "finished uid = \<lparr>entry_uploadId = uid, entry_status = Success, entry_error = None,
      glyphsProcessed = Some 0, reconstructions = Some 0\<rparr>"

section \<open>Auxiliary facts\<close>

lemma candidateText_geminiReply: "candidateText (geminiReply t) = Inr (Some (JStr t))"
  by (simp add: candidateText_def geminiReply_def optProp_def optIndex0_def str_def)

lemma trim_sample: "trim [36947, 27861, 33258, 28982] = [36947, 27861, 33258, 28982]"
  by (simp add: trim_def isSpace_def)

lemma postProcess_returns_text: "fst (postProcessWithAncientChineseModels e t) = t"
  by (simp add: postProcessWithAncientChineseModels_def split: response.splits sum.splits)

lemma geminiAttempt_Return:
  "geminiAttempt e config lastError = Return r \<Longrightarrow>
     ocrConfidence r = 0.90 \<and> ocrMethod r = Gemini \<and> ocrError r = None"
  by (auto simp: geminiAttempt_def Let_def split: response.splits sum.splits if_splits json.splits)

lemma geminiLoop_result:
  "geminiLoop e configs lastError = (r, calls) \<Longrightarrow> ocrText r \<noteq> [] \<Longrightarrow> ocrConfidence r = 0.90"
proof (induction configs arbitrary: lastError r calls)
  case Nil
  then show ?case by auto
next
  case (Cons config rest)
  show ?case
  proof (cases "geminiAttempt e config lastError")
    case (Return r')
    with Cons.prems show ?thesis by (auto dest: geminiAttempt_Return)
  next
    case (Continue le)
    with Cons.prems Cons.IH show ?thesis by (auto split: prod.splits)
  qed
qed

lemma gemini_success_confidence:
  assumes "extractTextWithGemini e p = (Inr r, calls)" "ocrText r \<noteq> []"
  shows "ocrConfidence r = 0.90"
  using assms
  by (auto simp: extractTextWithGemini_def split: if_splits sum.splits prod.splits dest: geminiLoop_result)

lemma gemini_Inr_key:
  "extractTextWithGemini e p = (Inr r, calls) \<Longrightarrow> isSet (GOOGLE_GEMINI_API_KEY e)"
  by (auto simp: extractTextWithGemini_def split: if_splits)

lemma applyPostProcessing_same: "applyPostProcessing r (ocrText r) = r"
  by (simp add: applyPostProcessing_def)

lemma extract_success:
  assumes "extractTextWithGemini e p = (Inr r, calls)" "ocrText r \<noteq> []"
  shows "fst (extractTextFromImage e p) = r"
proof -
  have k: "isSet (GOOGLE_GEMINI_API_KEY e)" using assms(1) by (rule gemini_Inr_key)
  obtain t c where pp: "postProcessWithAncientChineseModels e (ocrText r) = (t, c)"
    by (cases "postProcessWithAncientChineseModels e (ocrText r)")
  then have "t = ocrText r" using postProcess_returns_text[of e "ocrText r"] by simp
  then show ?thesis using assms k pp
    by (simp add: extractTextFromImage_def methods_def applyPostProcessing_same)
qed

lemma ocrOnly_gemini:
  "extractTextWithGemini ocrOnly samplePath =
     (Inr \<lparr>ocrText = [36947, 27861, 33258, 28982], ocrConfidence = 0.90, ocrMethod = Gemini, ocrError = None\<rparr>,
      [OcrCall ''v1beta'' ''gemini-2.5-flash''])"
  by (simp add: extractTextWithGemini_def ocrOnly_def offline_def isSet_def apiConfigs_def
        geminiAttempt_def ok_def candidateText_geminiReply orEmpty_def trim_sample str_def)

lemma foldl_plus_sum: "foldl (\<lambda>sum r. sum + f r) a rs = a + sum_list (map f rs)"
  by (induction rs arbitrary: a) (simp_all add: add.assoc)

lemma versionConfidence_mean:
  "versionConfidence rs = arithmeticMean (map rr_confidence rs)"
  by (simp add: versionConfidence_def arithmeticMean_def foldl_plus_sum)

lemma setUploadStatus_versions [simp]:
  "db_reconstructionVersion (setUploadStatus u st d) = db_reconstructionVersion d"
  by (simp add: setUploadStatus_def)

lemma saveGlyphs_versions:
  "db_reconstructionVersion (snd (saveGlyphs result u gs n d)) = db_reconstructionVersion d"
proof (induction gs arbitrary: n d)
  case Nil
  show ?case by simp
next
  case (Cons gl rest)
  show ?case
    by (simp add: Cons.IH Let_def split: prod.splits option.splits)
qed

lemma createVersion_versions:
  "db_reconstructionVersion (createVersion u n rs d) =
     db_reconstructionVersion d @ [\<lparr>rv_uploadId = u, versionNumber = n, reconstructedGlyphs = rs,
        rv_confidence = versionConfidence rs, rv_method = ''gemini-grm''\<rparr>]"
  by (simp add: createVersion_def)

lemma reprocessCompleted_batch:
  assumes "find (\<lambda>u. upload_id u = uid) (db_upload d) = Some upload" "upload_status upload = COMPLETED"
  shows "db_reconstructionVersion (snd (reprocessCompleted g d upload en)) =
           db_reconstructionVersion d @
           (case reconstructionBatch e g d uid en of
              None \<Rightarrow> []
            | Some rs \<Rightarrow>
                [\<lparr>rv_uploadId = uid,
                  versionNumber = length (filter (\<lambda>v. rv_uploadId v = uid) (db_reconstructionVersion d)) + 1,
                  reconstructedGlyphs = rs, rv_confidence = arithmeticMean (map rr_confidence rs),
                  rv_method = ''gemini-grm''\<rparr>])"
proof -
  have i: "upload_id upload = uid" using assms(1) by (auto simp: find_Some_iff)
  show ?thesis
    using assms
    by (simp add: reprocessCompleted_def reconstructionBatch_def completedCandidates_def returned_def i
          Let_def createVersion_versions versionConfidence_mean split: sum.splits)
qed

lemma processFresh_batch:
  assumes "find (\<lambda>u. upload_id u = uid) (db_upload d) = Some upload" "upload_status upload \<noteq> COMPLETED"
  shows "db_reconstructionVersion (snd (processFresh e g d upload en)) =
           db_reconstructionVersion d @
           (case reconstructionBatch e g d uid en of
              None \<Rightarrow> []
            | Some rs \<Rightarrow>
                [\<lparr>rv_uploadId = uid, versionNumber = 1,
                  reconstructedGlyphs = rs, rv_confidence = arithmeticMean (map rr_confidence rs),
                  rv_method = ''gemini-grm''\<rparr>])"
proof -
  have i: "upload_id upload = uid" using assms(1) by (auto simp: find_Some_iff)
  have v: "db_reconstructionVersion (snd (saveGlyphs r u gs n d0)) = db_reconstructionVersion d0" for r u gs n d0
    by (rule saveGlyphs_versions)
  show ?thesis
    using assms
    by (simp add: processFresh_def reconstructionBatch_def freshCandidates_def returned_def i
          Let_def split_beta createVersion_versions versionConfidence_mean v split: sum.splits)
qed

text \<open>The branch for a completed upload numbers a new version by the count of the
  versions of the upload, plus one.\<close>

lemma reprocessCompleted_versionNumber:
  "list_all (\<lambda>v. versionNumber v =
        length (filter (\<lambda>w. rv_uploadId w = upload_id upload) (db_reconstructionVersion d)) + 1)
     (drop (length (db_reconstructionVersion d))
        (db_reconstructionVersion (snd (reprocessCompleted g d upload en))))"
  by (simp add: reprocessCompleted_def Let_def createVersion_versions split: sum.splits)

lemma ocrOnly_extract:
  "extractTextFromImage ocrOnly samplePath =
     (\<lparr>ocrText = [36947, 27861, 33258, 28982], ocrConfidence = 0.90, ocrMethod = Gemini, ocrError = None\<rparr>,
      [OcrCall ''v1beta'' ''gemini-2.5-flash'', VerifyCall])"
  by (simp add: extractTextFromImage_def methods_def ocrOnly_gemini postProcessWithAncientChineseModels_def
       applyPostProcessing_def)
     (simp add: ocrOnly_def offline_def isSet_def str_def)

lemma ocrOnly_translation:
  "generateTranslation ocrOnly [36947, 27861, 33258, 28982] gs =
     (\<lparr>translation = Str (str ''The Tao follows nature - A fundamental concept in Taoist philosophy suggesting that the natural way of things is the best way.''),
       translationConfidence = 0.90\<rparr>,
      [TranslateCall ''v1beta'' ''gemini-2.5-flash'', TranslateCall ''v1'' ''gemini-2.5-flash'',
       TranslateCall ''v1beta'' ''gemini-2.5-flash-lite'', TranslateCall ''v1'' ''gemini-2.5-flash-lite''])"
  by (simp add: generateTranslation_def ocrOnly_def offline_def isSet_def apiConfigs_def translateAttempt_def
        lookupCommonTranslation_def commonTranslations_def str_def)

lemma ocrOnly_meanings:
  "getCharacterMeanings ocrOnly [36947, 27861, 33258, 28982] ctx =
     ([], (case ctx of Some (Inherited k) \<Rightarrow> [] | _ \<Rightarrow> [MeaningsCall 800]) @ [MeaningsBatchCall 0])"
  by (simp add: getCharacterMeanings_def stripWhitespace_def isSpace_def isHighSurrogate_def uniqueOf_def
        isChinese_def ocrOnly_def offline_def isSet_def str_def replyEntries_def estimatedTokens_def
        batchLoop.simps Let_def split: option.splits jsvalue.splits)

lemma ocrOnly_single: "singleCharacterLookup ocrOnly i = (None, [CharMeaningCall i])"
  by (simp add: singleCharacterLookup_def ocrOnly_def offline_def isSet_def str_def)

lemma ocrOnly_glyphs:
  assumes "db_glyph d = []"
  shows "fst (matchGlyphs ocrOnly [36947, 27861, 33258, 28982] d ctx) = sampleGlyphs"
  using assms
  by (simp add: matchGlyphs_def ocrOnly_meanings stripWhitespace_def isSpace_def isHighSurrogate_def
        isPunctuation_def matchCharacter_def findMatchedGlyph_def lookupMeaning_def nonEmpty_def
        ocrOnly_single str_def sampleGlyphs_def numeral_2_eq_2[symmetric] numeral_3_eq_3[symmetric])

lemma ocrOnly_process:
  assumes "db_glyph d = []"
  shows "fst (processAncientText ocrOnly samplePath d) =
     Inr \<lparr>extractedText = [36947, 27861, 33258, 28982], pr_glyphs = sampleGlyphs,
          scriptType = Some (str ''Traditional Chinese''), pr_confidence = 0.90, pr_method = str ''gemini''\<rparr>"
  using assms
  by (simp add: processAncientText_def ocrOnly_extract ocrOnly_translation ocrOnly_glyphs[OF assms]
        detectScriptType_def methodName_def split_beta List.map_filter_simps)

lemma failedStore_run:
  "db_reconstructionVersion (snd (processUpload ocrOnly byConfidence failedStore 41 True)) =
      db_reconstructionVersion failedStore @
        [\<lparr>rv_uploadId = 41, versionNumber = 1,
          reconstructedGlyphs = [\<lparr>reconstructedGlyph = [36947], rr_confidence = 0.9\<rparr>,
                                 \<lparr>reconstructedGlyph = [27861], rr_confidence = 0.7\<rparr>,
                                 \<lparr>reconstructedGlyph = [33258], rr_confidence = 0.7\<rparr>,
                                 \<lparr>reconstructedGlyph = [28982], rr_confidence = 0.7\<rparr>],
          rv_confidence = Some 0.75, rv_method = ''gemini-grm''\<rparr>]"
proof -
  have p: "fst (processAncientText ocrOnly samplePath (setUploadStatus 41 PROCESSING failedStore)) =
     Inr \<lparr>extractedText = [36947, 27861, 33258, 28982], pr_glyphs = sampleGlyphs,
          scriptType = Some (str ''Traditional Chinese''), pr_confidence = 0.90, pr_method = str ''gemini''\<rparr>"
    by (rule ocrOnly_process) (simp add: setUploadStatus_def failedStore_def)
  have v: "db_reconstructionVersion (snd (saveGlyphs r u gs n d)) = db_reconstructionVersion d" for r u gs n d
    by (rule saveGlyphs_versions)
  have u: "find (\<lambda>u. upload_id u = 41) (db_upload failedStore) =
      Some \<lparr>upload_id = 41, upload_userId = 7, upload_filePath = samplePath, upload_status = FAILED, upload_scriptType = None\<rparr>"
    by (simp add: failedStore_def)
  have c: "filter (\<lambda>gl. needsReconstruction byConfidence
             \<lparr>cand_symbol = symbol gl, cand_confidence = confidence gl,
              cand_boundingBox = Some (JNum (real (position gl)))\<rparr>) sampleGlyphs = sampleGlyphs"
    by (simp add: byConfidence_def sampleGlyphs_def)
  have l: "sampleGlyphs \<noteq> []" by (simp add: sampleGlyphs_def)
  have b: "batchReconstructGlyphs byConfidence q
             (map (\<lambda>gl. \<lparr>cand_symbol = symbol gl, cand_confidence = confidence gl,
                         cand_boundingBox = Some (JNum (real (position gl)))\<rparr>) sampleGlyphs) st =
           Inr [\<lparr>reconstructedGlyph = [36947], rr_confidence = 0.9\<rparr>,
                \<lparr>reconstructedGlyph = [27861], rr_confidence = 0.7\<rparr>,
                \<lparr>reconstructedGlyph = [33258], rr_confidence = 0.7\<rparr>,
                \<lparr>reconstructedGlyph = [28982], rr_confidence = 0.7\<rparr>]" for q st
    by (simp add: byConfidence_def sampleGlyphs_def)
  show ?thesis
    by (simp add: processUpload_def u processFresh_def p Let_def split_beta c l b
          createVersion_versions v versionConfidence_def)
qed

lemma completedStore_batch:
  "reconstructionBatch e byConfidence completedStore 41 True =
     Some [\<lparr>reconstructedGlyph = [36947], rr_confidence = 0.9\<rparr>,
           \<lparr>reconstructedGlyph = [27861], rr_confidence = 0.7\<rparr>]"
  by (simp add: reconstructionBatch_def completedStore_def uploadGlyphs_def completedCandidates_def
        List.map_filter_simps byConfidence_def returned_def)

lemma failedStore_batch:
  "reconstructionBatch ocrOnly byConfidence failedStore 41 True =
     Some [\<lparr>reconstructedGlyph = [36947], rr_confidence = 0.9\<rparr>,
           \<lparr>reconstructedGlyph = [27861], rr_confidence = 0.7\<rparr>,
           \<lparr>reconstructedGlyph = [33258], rr_confidence = 0.7\<rparr>,
           \<lparr>reconstructedGlyph = [28982], rr_confidence = 0.7\<rparr>]"
proof -
  have p: "fst (processAncientText ocrOnly samplePath (setUploadStatus 41 PROCESSING failedStore)) =
     Inr \<lparr>extractedText = [36947, 27861, 33258, 28982], pr_glyphs = sampleGlyphs,
          scriptType = Some (str ''Traditional Chinese''), pr_confidence = 0.90, pr_method = str ''gemini''\<rparr>"
    by (rule ocrOnly_process) (simp add: setUploadStatus_def failedStore_def)
  have u: "find (\<lambda>u. upload_id u = 41) (db_upload failedStore) =
      Some \<lparr>upload_id = 41, upload_userId = 7, upload_filePath = samplePath, upload_status = FAILED, upload_scriptType = None\<rparr>"
    by (simp add: failedStore_def)
  have c: "freshCandidates byConfidence r =
      map (\<lambda>gl. \<lparr>cand_symbol = symbol gl, cand_confidence = confidence gl,
                  cand_boundingBox = Some (JNum (real (position gl)))\<rparr>) sampleGlyphs"
    if "pr_glyphs r = sampleGlyphs" for r
    using that by (simp add: freshCandidates_def byConfidence_def sampleGlyphs_def)
  have b: "batchReconstructGlyphs byConfidence q
             (map (\<lambda>gl. \<lparr>cand_symbol = symbol gl, cand_confidence = confidence gl,
                         cand_boundingBox = Some (JNum (real (position gl)))\<rparr>) sampleGlyphs) st =
           Inr [\<lparr>reconstructedGlyph = [36947], rr_confidence = 0.9\<rparr>,
                \<lparr>reconstructedGlyph = [27861], rr_confidence = 0.7\<rparr>,
                \<lparr>reconstructedGlyph = [33258], rr_confidence = 0.7\<rparr>,
                \<lparr>reconstructedGlyph = [28982], rr_confidence = 0.7\<rparr>]" for q st
    by (simp add: byConfidence_def sampleGlyphs_def)
  have n: "sampleGlyphs \<noteq> []" by (simp add: sampleGlyphs_def)
  show ?thesis
    by (simp add: reconstructionBatch_def u p c b n returned_def)
qed

lemma attempt_text:
  "replyText (reply e c) = Some t \<Longrightarrow>
   geminiAttempt e c le = Return \<lparr>ocrText = trim t, ocrConfidence = 0.90, ocrMethod = Gemini, ocrError = None\<rparr>"
  by (auto simp: replyText_def reply_def geminiAttempt_def orEmpty_def ok_def
      split: response.splits sum.splits option.splits json.splits if_splits)

lemma attempt_no_text:
  "replyText (reply e c) = None \<Longrightarrow> geminiAttempt e c le = Continue (capturedError e le (reply e c))"
  by (auto simp: replyText_def reply_def geminiAttempt_def capturedError_def orEmpty_def Let_def ok_def
      split: response.splits sum.splits option.splits json.splits if_splits)

lemma geminiLoop_skip:
  "list_all (\<lambda>c. replyText (reply e c) = None) pre \<Longrightarrow>
   geminiLoop e (pre @ rest) le =
     (fst (geminiLoop e rest (lastCaptured e le pre)),
      map requestOf pre @ snd (geminiLoop e rest (lastCaptured e le pre)))"
proof (induction pre arbitrary: le)
  case Nil
  show ?case by (simp add: lastCaptured_def)
next
  case (Cons c pre)
  then show ?case
    by (simp add: attempt_no_text lastCaptured_def requestOf_def split_beta)
qed

lemma geminiLoop_first_text:
  assumes "list_all (\<lambda>c. replyText (reply e c) = None) pre" "replyText (reply e c) = Some t"
  shows "geminiLoop e (pre @ c # post) le =
     (\<lparr>ocrText = trim t, ocrConfidence = 0.90, ocrMethod = Gemini, ocrError = None\<rparr>,
      map requestOf pre @ [requestOf c])"
  using geminiLoop_skip[OF assms(1), of "c # post" le] attempt_text[OF assms(2)]
  by (simp add: requestOf_def)

lemma geminiLoop_exhausted:
  assumes "list_all (\<lambda>c. replyText (reply e c) = None) configs"
  shows "geminiLoop e configs le =
     (\<lparr>ocrText = [], ocrConfidence = 0, ocrMethod = Gemini,
       ocrError = Some (errorMessage (lastCaptured e le configs))\<rparr>, map requestOf configs)"
  using geminiLoop_skip[OF assms, of "[]" le] by simp

lemma offline_replies: "list_all (\<lambda>c. replyText (reply offline c) = None) apiConfigs"
  by (simp add: apiConfigs_def replyText_def reply_def offline_def)

lemma offline_captured: "lastCaptured offline None apiConfigs = Some (str ''offline'')"
  by (simp add: lastCaptured_def apiConfigs_def capturedError_def reply_def offline_def)

text \<open>A reply that is only white space ends the search: the text is tested before it is
  trimmed, so the method returns an empty text and no later configuration is tried.\<close>

lemma blank_reply_ends_search:
  "extractTextFromImage blankAnswer samplePath =
     (\<lparr>ocrText = [], ocrConfidence = 0, ocrMethod = Fallback, ocrError = Some failureMessage\<rparr>,
      [OcrCall ''v1beta'' ''gemini-2.5-flash''])"
  by (simp add: extractTextFromImage_def methods_def extractTextWithGemini_def blankAnswer_def offline_def
        isSet_def apiConfigs_def geminiAttempt_def ok_def candidateText_geminiReply orEmpty_def
        trim_def isSpace_def failureMessage_def str_def)

lemma matchCharacter_tier:
  "position (fst (matchCharacter e ai db i c)) = i \<and>
   symbol (fst (matchCharacter e ai db i c)) = c \<and>
   confidence (fst (matchCharacter e ai db i c)) =
     tieredConfidence (nonEmpty (lookupMeaning ai c)) (findMatchedGlyph e db c)
       (nonEmpty (fst (singleCharacterLookup e i)))"
  by (simp add: matchCharacter_def tieredConfidence_def hasStoredMeaning_def Let_def split_beta
      split: option.splits)

lemma matchCharacter_meaning:
  "nonEmpty (lookupMeaning ai c) \<Longrightarrow> meaning (fst (matchCharacter e ai db i c)) = lookupMeaning ai c"
  by (simp add: matchCharacter_def Let_def split_beta split: option.splits)

lemma matchLoop_tiers:
  "map (\<lambda>g. (position g, symbol g, confidence g)) (fst (matchLoop e ai db i cs)) =
   map (\<lambda>(j, c). (j, c, tieredConfidence (nonEmpty (lookupMeaning ai c)) (findMatchedGlyph e db c)
                          (nonEmpty (fst (singleCharacterLookup e j)))))
     (filter (\<lambda>(j, c). \<not> isPunctuation c) (zip [i..<i + length cs] cs))"
proof (induction cs arbitrary: i)
  case Nil
  show ?case by simp
next
  case (Cons c cs)
  have u: "[i..<i + length (c # cs)] = i # [Suc i..<Suc i + length cs]"
    by (simp add: upt_rec)
  show ?case
    unfolding u
    using Cons.IH[of "Suc i"] matchCharacter_tier[of e ai db i c]
    by (simp add: split_beta del: upt_Suc)
qed

lemma matchLoop_meanings:
  "list_all (\<lambda>g. nonEmpty (lookupMeaning ai (symbol g)) \<longrightarrow> meaning g = lookupMeaning ai (symbol g))
     (fst (matchLoop e ai db i cs))"
proof (induction cs arbitrary: i)
  case Nil
  show ?case by simp
next
  case (Cons c cs)
  show ?case
    using Cons.IH[of "Suc i"] matchCharacter_tier[of e ai db i c] matchCharacter_meaning[of ai c e db i]
    by (simp add: split_beta)
qed

lemma sample_qualifying:
  "qualifying [36947, 27861, 33258, 28982] = [(0, [36947]), (1, [27861]), (2, [33258]), (3, [28982])]"
  by (simp add: qualifying_def stripWhitespace_def isSpace_def isHighSurrogate_def isPunctuation_def str_def
        upt_rec[of 0] upt_rec[of 1] upt_rec[of 2] upt_rec[of 3] upt_rec[of 4])

lemma tiersEnv_meanings:
  "fst (getCharacterMeanings tiersEnv [36947, 27861, 33258, 28982] None) = [([36947], str ''way'')]"
  by (simp add: getCharacterMeanings_def stripWhitespace_def isSpace_def isHighSurrogate_def uniqueOf_def
        isChinese_def tiersEnv_def offline_def isSet_def str_def replyEntries_def estimatedTokens_def
        ok_def candidateText_geminiReply orEmpty_def Let_def)

lemma tiersEnv_lookup:
  "nonEmpty (fst (singleCharacterLookup tiersEnv i)) = (i = 3)"
  by (simp add: singleCharacterLookup_def tiersEnv_def offline_def isSet_def str_def ok_def
        candidateText_geminiReply orEmpty_def nonEmpty_def trim_def isSpace_def)

lemma tiersStore_find:
  "findMatchedGlyph tiersEnv (db_glyph tiersStore) [36947] = None"
  "findMatchedGlyph tiersEnv (db_glyph tiersStore) [27861] =
     Some \<lparr>glyph_id = 11, glyph_scriptId = 5, glyph_symbol = [27861], glyph_name = None,
           glyph_description = Some (str ''law''), glyph_confidence = 0.5\<rparr>"
  "findMatchedGlyph tiersEnv (db_glyph tiersStore) [33258] =
     Some \<lparr>glyph_id = 12, glyph_scriptId = 5, glyph_symbol = [33258], glyph_name = Some [33258],
           glyph_description = Some (str ''Character: self''), glyph_confidence = 0.9\<rparr>"
  "findMatchedGlyph tiersEnv (db_glyph tiersStore) [28982] = None"
  by (simp_all add: findMatchedGlyph_def tiersStore_def tiersEnv_def offline_def sameFirstCodeUnit_def)

lemma stored_meanings:
  "glyph_description g = Some (str ''law'') \<Longrightarrow> hasStoredMeaning g"
  "glyph_description g = Some (str ''Character: self'') \<Longrightarrow> \<not> hasStoredMeaning g"
  by (simp_all add: hasStoredMeaning_def dbMeaningOf_def nonEmpty_def isPlaceholder_def str_def)

lemma way_lookup:
  "nonEmpty (lookupMeaning [([36947], str ''way'')] c) = (c = [36947])"
  "lookupMeaning [([36947], str ''way'')] [36947] = Some (str ''way'')"
  by (simp_all add: lookupMeaning_def nonEmpty_def str_def)

lemma punctuation_unit_small: "isPunctuation [u] \<Longrightarrow> u < 128"
  by (auto simp: isPunctuation_def str_def)

lemma arrayFrom_small:
  "list_all (\<lambda>u. u < 128) s \<Longrightarrow> arrayFrom s = map (\<lambda>u. [u]) s"
  by (induction s rule: arrayFrom.induct) (simp_all add: isHighSurrogate_def)

lemma strip_punctuation:
  "list_all (\<lambda>u. isSpace u \<or> isPunctuation [u]) t \<Longrightarrow>
   list_all (\<lambda>u. isPunctuation [u]) (stripWhitespace t)"
  by (induction t) (auto simp: stripWhitespace_def)

lemma matchLoop_punctuation:
  "list_all (\<lambda>u. isPunctuation [u]) s \<Longrightarrow> matchLoop e ai db i (map (\<lambda>u. [u]) s) = ([], [])"
  by (induction s arbitrary: i) simp_all

lemma no_chinese_punctuation:
  "list_all (\<lambda>u. isPunctuation [u]) s \<Longrightarrow> filter isChinese (uniqueOf (map (\<lambda>u. [u]) s)) = []"
proof -
  assume a: "list_all (\<lambda>u. isPunctuation [u]) s"
  have "\<not> isChinese c" if "c \<in> set (map (\<lambda>u. [u]) s)" for c
  proof -
    from that obtain u where u: "u \<in> set s" "c = [u]" by auto
    with a have "isPunctuation [u]" by (simp add: list_all_iff)
    then have "u < 128" by (rule punctuation_unit_small)
    with u show ?thesis by (simp add: isChinese_def)
  qed
  then show ?thesis by (auto simp: uniqueOf_def filter_empty_conv)
qed

lemma sample_common:
  "lookupCommonTranslation [36947, 27861, 33258, 28982] = Some (Str sampleTranslation)"
  by (simp add: lookupCommonTranslation_def commonTranslations_def sampleTranslation_def)

lemma noKey_meanings:
  "\<not> isSet (GOOGLE_GEMINI_API_KEY e) \<Longrightarrow> getCharacterMeanings e t ctx = ([], [])"
  by (simp add: getCharacterMeanings_def Let_def)

lemma noKey_single:
  "\<not> isSet (GOOGLE_GEMINI_API_KEY e) \<Longrightarrow> singleCharacterLookup e i = (None, [])"
  by (simp add: singleCharacterLookup_def)

lemma sample_glyphs_avg: "avgConfidence sampleGlyphs = 0.60"
  by (simp add: avgConfidence_def sampleGlyphs_def)

lemma noKey_sample_glyphs:
  assumes "\<not> isSet (GOOGLE_GEMINI_API_KEY e)"
    and "list_all (\<lambda>c. findMatchedGlyph e (db_glyph d) c = None) [[36947], [27861], [33258], [28982]]"
  shows "matchGlyphs e [36947, 27861, 33258, 28982] d ctx = (sampleGlyphs, [])"
  using assms
  by (simp add: matchGlyphs_def noKey_meanings noKey_single stripWhitespace_def isSpace_def isHighSurrogate_def
        isPunctuation_def matchCharacter_def lookupMeaning_def nonEmpty_def
        str_def sampleGlyphs_def numeral_2_eq_2[symmetric] numeral_3_eq_3[symmetric])

lemma noKey_translation:
  assumes "\<not> isSet (GOOGLE_GEMINI_API_KEY e)" "t \<noteq> []"
  shows "generateTranslation e t gs =
     (case lookupCommonTranslation t of
        Some v \<Rightarrow> (\<lparr>translation = v, translationConfidence = 0.90\<rparr>, [])
      | None \<Rightarrow> (\<lparr>translation = Str (genericTranslation t gs),
                   translationConfidence = min (avgConfidence gs) 0.85\<rparr>, []))"
  using assms by (simp add: generateTranslation_def split: option.splits)

lemma noKey_unset: "\<not> isSet (GOOGLE_GEMINI_API_KEY noKey)"
  by (simp add: noKey_def offline_def isSet_def)

lemma failedStore_unknown:
  "list_all (\<lambda>c. findMatchedGlyph e (db_glyph failedStore) c = None) [[36947], [27861], [33258], [28982]]"
  by (simp add: findMatchedGlyph_def failedStore_def)

lemma avgConfidence_mean: "avgConfidence gs = meanConfidence gs"
  by (simp add: avgConfidence_def meanConfidence_def foldl_plus_sum)

lemma own_key_lookup:
  "map_of commonTranslations t = Some v \<Longrightarrow> lookupCommonTranslation t = Some (Str v)"
  by (simp add: lookupCommonTranslation_def)

text \<open>A text that is the name of a property inherited from \<open>Object.prototype\<close> is
  answered by the lookup in the phrase table, with a value that is not a string.\<close>

lemma inherited_key_answers:
  "generateTranslation noKey (str ''constructor'') gs =
     (\<lparr>translation = Inherited ''constructor'', translationConfidence = 0.90\<rparr>, [])"
  using noKey_translation[OF noKey_unset, of "str ''constructor''" gs]
  by (simp add: lookupCommonTranslation_def commonTranslations_def objectPrototypeKeys_def str_def)

lemma process_throws_iff:
  "isl (fst (processAncientText e p d)) \<longleftrightarrow>
     (ocrText (fst (extractTextFromImage e p)) = [] \<and> \<not> developmentFallback e)"
  by (simp add: processAncientText_def split_beta)

lemma process_confidence:
  "ocrText (fst (extractTextFromImage e p)) \<noteq> [] \<Longrightarrow>
   map_sum (\<lambda>m. m) pr_confidence (fst (processAncientText e p d)) =
     Inr (translationConfidence (fst (generateTranslation e (ocrText (fst (extractTextFromImage e p))) [])))"
  by (simp add: processAncientText_def split_beta)

lemma failed_translation_confidence:
  assumes "t \<noteq> []" "fst (translateLoop e apiConfigs) = None"
  shows "translationConfidence (fst (generateTranslation e t [])) =
           (if lookupCommonTranslation t = None then 0.70 else 0.90)"
  using assms
  by (auto simp: generateTranslation_def avgConfidence_def split_beta split: option.splits)

lemma status_set_all:
  "list_all (\<lambda>u. upload_status u = st)
     (filter (\<lambda>u. upload_id u = uid)
        (map (\<lambda>u. if upload_id u = uid then u\<lparr>upload_status := st\<rparr> else u) us))"
  by (induction us) simp_all

lemma setUploadStatus_all:
  "list_all (\<lambda>u. upload_status u = st) (filter (\<lambda>u. upload_id u = uid) (db_upload (setUploadStatus uid st d)))"
  using status_set_all[of st uid "db_upload d"] by (simp add: setUploadStatus_def)

lemma first_config_text:
  assumes "isSet (GOOGLE_GEMINI_API_KEY e)" "readFile e p = Inr ()"
    and "replyText (reply e (''v1beta'', ''gemini-2.5-flash'')) = Some t" "trim t \<noteq> []"
  shows "fst (extractTextFromImage e p) =
     \<lparr>ocrText = trim t, ocrConfidence = 0.90, ocrMethod = Gemini, ocrError = None\<rparr>"
proof -
  have "extractTextWithGemini e p =
     (Inr \<lparr>ocrText = trim t, ocrConfidence = 0.90, ocrMethod = Gemini, ocrError = None\<rparr>,
      [requestOf (''v1beta'', ''gemini-2.5-flash'')])"
    using assms(1,2) geminiLoop_first_text[of e "[]" "(''v1beta'', ''gemini-2.5-flash'')" t
        "[(''v1'', ''gemini-2.5-flash''), (''v1beta'', ''gemini-2.5-flash-lite''), (''v1'', ''gemini-2.5-flash-lite'')]" None]
      assms(3)
    by (simp add: extractTextWithGemini_def apiConfigs_def)
  then show ?thesis using assms(4) by (simp add: extract_success)
qed

lemma offline_no_text: "ocrText (fst (extractTextFromImage offline p)) = []"
proof -
  have k: "isSet (GOOGLE_GEMINI_API_KEY offline)" "readFile offline p = Inr ()"
    by (simp_all add: offline_def isSet_def str_def)
  have "extractTextWithGemini offline p =
     (Inr \<lparr>ocrText = [], ocrConfidence = 0, ocrMethod = Gemini,
           ocrError = Some (errorMessage (lastCaptured offline None apiConfigs))\<rparr>, map requestOf apiConfigs)"
    using k geminiLoop_exhausted[OF offline_replies, of None] by (simp add: extractTextWithGemini_def)
  then show ?thesis using k by (simp add: extractTextFromImage_def methods_def)
qed

lemma devFallback_no_text: "ocrText (fst (extractTextFromImage devFallback p)) = []"
proof -
  have k: "isSet (GOOGLE_GEMINI_API_KEY devFallback)" "readFile devFallback p = Inr ()"
    by (simp_all add: devFallback_def offline_def isSet_def str_def)
  have r: "list_all (\<lambda>c. replyText (reply devFallback c) = None) apiConfigs"
    by (simp add: apiConfigs_def replyText_def reply_def devFallback_def offline_def)
  have "extractTextWithGemini devFallback p =
     (Inr \<lparr>ocrText = [], ocrConfidence = 0, ocrMethod = Gemini,
           ocrError = Some (errorMessage (lastCaptured devFallback None apiConfigs))\<rparr>, map requestOf apiConfigs)"
    using k geminiLoop_exhausted[OF r, of None] by (simp add: extractTextWithGemini_def)
  then show ?thesis using k by (simp add: extractTextFromImage_def methods_def)
qed

lemma translationAnswers_text:
  "fst (extractTextFromImage translationAnswers samplePath) =
     \<lparr>ocrText = [36947, 27861, 33258, 28982], ocrConfidence = 0.90, ocrMethod = Gemini, ocrError = None\<rparr>"
  using first_config_text[of translationAnswers samplePath "[36947, 27861, 33258, 28982]"]
  by (simp add: translationAnswers_def offline_def isSet_def str_def replyText_def reply_def ok_def
        candidateText_geminiReply trim_sample)

lemma translationAnswers_confidence:
  "translationConfidence (fst (generateTranslation translationAnswers [36947, 27861, 33258, 28982] [])) = 0.88"
  by (simp add: generateTranslation_def translationAnswers_def offline_def isSet_def apiConfigs_def
        translateAttempt_def ok_def candidateText_geminiReply orEmpty_def str_def)

lemma ocrOnly_translation_fails: "fst (translateLoop ocrOnly apiConfigs) = None"
  by (simp add: apiConfigs_def translateAttempt_def ocrOnly_def offline_def)

lemma slice_chunk:
  assumes "i < length xs" "0 < m"
  shows "slice xs (int i) (int i + m) = take (nat m) (drop i xs)"
proof -
  have a: "sliceIndex (length xs) (int i) = i" using assms by (simp add: sliceIndex_def)
  have b: "sliceIndex (length xs) (int i + m) = min (i + nat m) (length xs)"
    using assms by (simp add: sliceIndex_def nat_add_distrib)
  show ?thesis using assms by (simp add: slice_def a b min_def)
qed

lemma makeBatches_returns:
  assumes "0 < m"
  shows "\<exists>bs. makeBatches us m (int i) acc = Some (acc @ bs) \<and> concat bs = map upload_id (drop i us)"
proof (induction "length us - i" arbitrary: i acc rule: less_induct)
  case less
  show ?case
  proof (cases "i < length us")
    case False
    then show ?thesis by (subst makeBatches.simps) simp
  next
    case True
    let ?chunk = "map upload_id (take (nat m) (drop i us))"
    have s: "int i + m = int (i + nat m)" using assms by simp
    have "length us - (i + nat m) < length us - i" using True assms by simp
    from less[OF this, of "acc @ [?chunk]"]
    obtain bs where bs: "makeBatches us m (int i + m) (acc @ [?chunk]) = Some ((acc @ [?chunk]) @ bs)"
      "concat bs = map upload_id (drop (i + nat m) us)" unfolding s[symmetric] by blast
    have c: "slice us (int i) (int i + m) = take (nat m) (drop i us)"
      by (rule slice_chunk[OF True assms])
    have "makeBatches us m (int i) acc = Some (acc @ (?chunk # bs))"
      using True by (subst makeBatches.simps) (simp only: c bs(1) of_nat_less_iff if_True append.simps append_assoc)
    moreover have "concat (?chunk # bs) = map upload_id (drop i us)"
    proof -
      have "take (nat m) (drop i us) @ drop (i + nat m) us = drop i us"
        by (metis add.commute append_take_drop_id drop_drop)
      then show ?thesis using bs(2) by (simp flip: map_append)
    qed
    ultimately show ?thesis by blast
  qed
qed

lemma allSettled_length: "length (fst (allSettled e g en d ids)) = length ids"
  by (induction ids arbitrary: d) (simp_all add: split_beta)

lemma allSettled_append:
  "allSettled e g en d (xs @ ys) =
     (fst (allSettled e g en d xs) @ fst (allSettled e g en (snd (allSettled e g en d xs)) ys),
      snd (allSettled e g en (snd (allSettled e g en d xs)) ys))"
  by (induction xs arbitrary: d) (simp_all add: split_beta)

lemma runBatches_concat:
  "runBatches e g en d bs =
     (map settledEntry (zip (concat bs) (fst (allSettled e g en d (concat bs)))),
      snd (allSettled e g en d (concat bs)))"
proof (induction bs arbitrary: d)
  case Nil
  show ?case by simp
next
  case (Cons b bs)
  obtain o1 d1 where p: "allSettled e g en d b = (o1, d1)"
    by (cases "allSettled e g en d b")
  then have l: "length o1 = length b" using allSettled_length[of e g en d b] by simp
  show ?case
    using l by (simp add: p Cons.IH allSettled_append)
qed

lemma runSequentially_entries:
  "runSequentially e g en d us =
     (map sequentialEntry (zip (map upload_id us) (fst (allSettled e g en d (map upload_id us)))),
      snd (allSettled e g en d (map upload_id us)))"
proof (induction us arbitrary: d)
  case Nil
  show ?case by simp
next
  case (Cons u us)
  obtain o1 d1 where p: "processUpload e g d (upload_id u) en = (o1, d1)"
    by (cases "processUpload e g d (upload_id u) en")
  show ?case
    by (cases o1) (simp_all add: p Cons.IH sequentialEntry_def split_beta)
qed

lemma reprocessCompleted_own:
  "ownOutcome (upload_id upload) (fst (reprocessCompleted g d upload en))"
  by (simp add: reprocessCompleted_def ownOutcome_def Let_def split: sum.splits)

lemma processFresh_own:
  "ownOutcome (upload_id upload) (fst (processFresh e g d upload en))"
  by (simp add: processFresh_def ownOutcome_def Let_def split_beta split: sum.splits)

lemma processUpload_own: "ownOutcome uid (fst (processUpload e g d uid en))"
proof (cases "find (\<lambda>u. upload_id u = uid) (db_upload d)")
  case None
  then show ?thesis by (simp add: processUpload_def ownOutcome_def)
next
  case (Some upload)
  then have "upload_id upload = uid" by (auto simp: find_Some_iff)
  then show ?thesis
    using Some reprocessCompleted_own[of upload g d en] processFresh_own[of upload e g d en]
    by (simp add: processUpload_def)
qed

lemma allSettled_own: "list_all2 ownOutcome ids (fst (allSettled e g en d ids))"
  by (induction ids arbitrary: d) (simp_all add: split_beta processUpload_own)

lemma aggregate_entries:
  assumes "list_all2 ownOutcome ids outcomes"
    and "f = settledEntry \<or> f = sequentialEntry"
  shows "aggregated outcomes ids
           (Processed (length (filter (\<lambda>r. entry_status r = Success) (map f (zip ids outcomes))))
                      (length (filter (\<lambda>r. entry_status r = Failed) (map f (zip ids outcomes))))
                      (map f (zip ids outcomes)))"
  using assms(1)
proof (induction rule: list_all2_induct)
  case Nil
  show ?case by (simp add: aggregated_def)
next
  case (Cons uid ids outcome outcomes)
  then show ?case
    using assms(2)
    by (cases outcome)
       (auto simp: aggregated_def settledEntry_def sequentialEntry_def failedEntry_def ownOutcome_def)
qed

lemma offline_throws: "isl (fst (processAncientText offline p d))"
proof -
  have "\<not> developmentFallback offline" by (simp add: developmentFallback_def offline_def)
  then show ?thesis by (simp add: process_throws_iff offline_no_text)
qed

lemma five_outcomes:
  "map isl (fst (allSettled offline byConfidence True fiveUploads [41, 42, 43, 44, 45])) =
     [False, False, True, False, False]"
proof -
  obtain m where m: "fst (processAncientText offline samplePath (setUploadStatus 43 PROCESSING fiveUploads)) = Inl m"
    using offline_throws[of samplePath "setUploadStatus 43 PROCESSING fiveUploads"] by (auto simp: isl_def)
  have c: "fst (processUpload offline byConfidence d uid True) = Inr (finished uid) \<and>
           snd (processUpload offline byConfidence d uid True) = d"
    if "find (\<lambda>u. upload_id u = uid) (db_upload d) =
          Some \<lparr>upload_id = uid, upload_userId = 7, upload_filePath = samplePath, upload_status = COMPLETED, upload_scriptType = None\<rparr>"
       "db_glyphMatch d = []" for d uid
    using that
    by (simp add: processUpload_def reprocessCompleted_def uploadGlyphs_def finished_def List.map_filter_simps)
  have f: "processUpload offline byConfidence fiveUploads 43 True =
      (Inl m, setUploadStatus 43 FAILED (setUploadStatus 43 PROCESSING fiveUploads))"
    using m by (simp add: processUpload_def processFresh_def fiveUploads_def Let_def)
  have s1: "processUpload offline byConfidence fiveUploads 41 True = (Inr (finished 41), fiveUploads)"
    using c[of 41 fiveUploads] by (simp add: fiveUploads_def prod_eq_iff)
  have s2: "processUpload offline byConfidence fiveUploads 42 True = (Inr (finished 42), fiveUploads)"
    using c[of 42 fiveUploads] by (simp add: fiveUploads_def prod_eq_iff)
  let ?d = "setUploadStatus 43 FAILED (setUploadStatus 43 PROCESSING fiveUploads)"
  have s4: "processUpload offline byConfidence ?d 44 True = (Inr (finished 44), ?d)"
    using c[of 44 ?d] by (simp add: fiveUploads_def setUploadStatus_def prod_eq_iff)
  have s5: "processUpload offline byConfidence ?d 45 True = (Inr (finished 45), ?d)"
    using c[of 45 ?d] by (simp add: fiveUploads_def setUploadStatus_def prod_eq_iff)
  show ?thesis by (simp add: s1 s2 f s4 s5)
qed

section \<open>The verification pass after a successful extraction\<close>

text \<open>
  C8. Whenever the Gemini method succeeds with a non-empty text, \<open>extractTextFromImage\<close>
  returns that text unchanged, and the confidence it returns is not below the OCR
  confidence, exceeds it by at most 0.05 and is at most 0.95. The same three bounds hold
  for the adjustment step itself, whatever text \<open>t\<close> a verification pass might hand
  back.
\<close>

theorem C8_verification_pass_bounds:
  assumes "extractTextWithGemini e p = (Inr r, calls)" and "ocrText r \<noteq> []"
  shows "ocrText (fst (extractTextFromImage e p)) = ocrText r \<and>
         ocrConfidence r \<le> ocrConfidence (fst (extractTextFromImage e p)) \<and>
         ocrConfidence (fst (extractTextFromImage e p)) - ocrConfidence r \<le> 0.05 \<and>
         ocrConfidence (fst (extractTextFromImage e p)) \<le> 0.95 \<and>
         ocrConfidence r \<le> ocrConfidence (applyPostProcessing r t) \<and>
         ocrConfidence (applyPostProcessing r t) - ocrConfidence r \<le> 0.05 \<and>
         ocrConfidence (applyPostProcessing r t) \<le> 0.95"
proof -
  have c: "ocrConfidence r = 0.90" using assms by (rule gemini_success_confidence)
  have f: "fst (extractTextFromImage e p) = r" using assms by (rule extract_success)
  show ?thesis using c f by (simp add: applyPostProcessing_def)
qed

theorem C8_verification_pass_bounds_witness:
  "extractTextWithGemini ocrOnly samplePath =
     (Inr \<lparr>ocrText = [36947, 27861, 33258, 28982], ocrConfidence = 0.90, ocrMethod = Gemini, ocrError = None\<rparr>,
      [OcrCall ''v1beta'' ''gemini-2.5-flash'']) \<and>
   ocrText (fst (extractTextFromImage ocrOnly samplePath)) = [36947, 27861, 33258, 28982] \<and>
   (0.90::real) \<le> ocrConfidence (fst (extractTextFromImage ocrOnly samplePath)) \<and>
   ocrConfidence (fst (extractTextFromImage ocrOnly samplePath)) \<le> 0.95"
  using C8_verification_pass_bounds [OF ocrOnly_gemini, of "[]"] ocrOnly_gemini
  by simp

section \<open>Reconstruction versions\<close>

text \<open>
  C5. The claim is that every version created for an upload is numbered by the count of
  the versions the upload already has, plus one. The branch of \<open>processUpload\<close> that runs
  the pipeline writes the number 1 instead: for an upload whose last run failed and
  which already has one version, the version it creates is numbered 1 again, not 2.
\<close>

theorem C5_fresh_branch_numbers_version_one:
  "length (filter (\<lambda>v. rv_uploadId v = 41) (db_reconstructionVersion failedStore)) = 1 \<and>
   map (\<lambda>v. (rv_uploadId v, versionNumber v))
     (db_reconstructionVersion (snd (processUpload ocrOnly byConfidence failedStore 41 True))) =
   [(41, 1), (41, 1)]"
  by (simp add: failedStore_run) (simp add: failedStore_def)

text \<open>
  C6. A run of \<open>processUpload\<close> leaves the existing reconstruction versions as they
  are, and adds a version exactly when it has a reconstruction batch: then it adds one
  version, for its upload, whose members are the results of the batch and whose
  confidence is the arithmetic mean of the confidences of these results, their sum
  divided by their count (over the reals; for no result the quotient is \<open>NaN\<close>, and
  there is no mean). This holds in the branch for a completed upload and in the branch
  that runs the pipeline.
\<close>

theorem C6_version_confidence_is_mean:
  "take (length (db_reconstructionVersion d))
     (db_reconstructionVersion (snd (processUpload e g d uploadId enable))) = db_reconstructionVersion d \<and>
   map versionOf (drop (length (db_reconstructionVersion d))
     (db_reconstructionVersion (snd (processUpload e g d uploadId enable)))) =
   (case reconstructionBatch e g d uploadId enable of
      None \<Rightarrow> []
    | Some rs \<Rightarrow> [(uploadId, rs, arithmeticMean (map rr_confidence rs))])"
proof (cases "find (\<lambda>u. upload_id u = uploadId) (db_upload d)")
  case None
  then show ?thesis by (simp add: processUpload_def reconstructionBatch_def)
next
  case (Some upload)
  show ?thesis
  proof (cases "upload_status upload = COMPLETED")
    case True
    show ?thesis
      using Some True reprocessCompleted_batch[OF Some True, of g enable e]
      by (simp add: processUpload_def versionOf_def split: option.splits)
  next
    case False
    show ?thesis
      using Some False processFresh_batch[OF Some False, of e g enable]
      by (simp add: processUpload_def versionOf_def split: option.splits)
  qed
qed

theorem C6_version_confidence_is_mean_witness:
  "map versionOf (drop (length (db_reconstructionVersion completedStore))
     (db_reconstructionVersion (snd (processUpload offline byConfidence completedStore 41 True)))) =
     [(41, [\<lparr>reconstructedGlyph = [36947], rr_confidence = 0.9\<rparr>,
            \<lparr>reconstructedGlyph = [27861], rr_confidence = 0.7\<rparr>], Some 0.8)] \<and>
   map versionOf (drop (length (db_reconstructionVersion failedStore))
     (db_reconstructionVersion (snd (processUpload ocrOnly byConfidence failedStore 41 True)))) =
     [(41, [\<lparr>reconstructedGlyph = [36947], rr_confidence = 0.9\<rparr>,
            \<lparr>reconstructedGlyph = [27861], rr_confidence = 0.7\<rparr>,
            \<lparr>reconstructedGlyph = [33258], rr_confidence = 0.7\<rparr>,
            \<lparr>reconstructedGlyph = [28982], rr_confidence = 0.7\<rparr>], Some 0.75)]"
proof -
  note t1 = C6_version_confidence_is_mean [of completedStore offline byConfidence 41 True, THEN conjunct2]
  note t2 = C6_version_confidence_is_mean [of failedStore ocrOnly byConfidence 41 True, THEN conjunct2]
  have c1: "map versionOf (drop (length (db_reconstructionVersion completedStore))
     (db_reconstructionVersion (snd (processUpload offline byConfidence completedStore 41 True)))) =
     [(41, [\<lparr>reconstructedGlyph = [36947], rr_confidence = 0.9\<rparr>,
            \<lparr>reconstructedGlyph = [27861], rr_confidence = 0.7\<rparr>], Some 0.8)]"
    unfolding t1 by (simp add: completedStore_batch arithmeticMean_def)
  have c2: "map versionOf (drop (length (db_reconstructionVersion failedStore))
     (db_reconstructionVersion (snd (processUpload ocrOnly byConfidence failedStore 41 True)))) =
     [(41, [\<lparr>reconstructedGlyph = [36947], rr_confidence = 0.9\<rparr>,
            \<lparr>reconstructedGlyph = [27861], rr_confidence = 0.7\<rparr>,
            \<lparr>reconstructedGlyph = [33258], rr_confidence = 0.7\<rparr>,
            \<lparr>reconstructedGlyph = [28982], rr_confidence = 0.7\<rparr>], Some 0.75)]"
    unfolding t2 by (simp add: failedStore_batch arithmeticMean_def)
  show ?thesis using c1 c2 by blast
qed

section \<open>The OCR fallback order\<close>

text \<open>
  C2, as the claim states it, fails in its last part: when every configuration is
  exhausted, \<open>extractTextFromImage\<close> does not return the last captured error message.
  With every request rejected with the message \<open>offline\<close>, the Gemini method reports
  that message, and \<open>extractTextFromImage\<close> replaces it by its own fixed message.
\<close>

theorem C2_fixed_message_counterexample:
  "extractTextWithGemini offline samplePath =
     (Inr \<lparr>ocrText = [], ocrConfidence = 0, ocrMethod = Gemini, ocrError = Some (str ''offline'')\<rparr>,
      map requestOf apiConfigs) \<and>
   ocrError (fst (extractTextFromImage offline samplePath)) =
     Some (str ''All OCR methods failed. Please ensure the image is clear and contains readable text.'') \<and>
   ocrError (fst (extractTextFromImage offline samplePath)) \<noteq> Some (str ''offline'')"
proof -
  have k: "isSet (GOOGLE_GEMINI_API_KEY offline)" "readFile offline samplePath = Inr ()"
    by (simp_all add: offline_def isSet_def str_def)
  have g: "extractTextWithGemini offline samplePath =
     (Inr \<lparr>ocrText = [], ocrConfidence = 0, ocrMethod = Gemini, ocrError = Some (str ''offline'')\<rparr>,
      map requestOf apiConfigs)"
    using k geminiLoop_exhausted[OF offline_replies, of None]
    by (simp add: extractTextWithGemini_def offline_captured errorMessage_def str_def)
  have f: "ocrError (fst (extractTextFromImage offline samplePath)) =
     Some (str ''All OCR methods failed. Please ensure the image is clear and contains readable text.'')"
    using k g by (simp add: extractTextFromImage_def methods_def)
  show ?thesis using g f by (simp add: str_def)
qed

text \<open>
  C2, amended. With the Gemini key set and the image readable, \<open>extractTextFromImage\<close>
  returns on the first configuration whose reply carries a text that is not empty after
  trimming: the trimmed text, confidence 0.90, method Gemini, after exactly one request
  to each configuration up to that one and none to a later one, followed by the
  verification request. Every reply without a text advances to the next configuration.
  When no reply carries a text, the Gemini method returns an empty text, confidence 0 and
  the last captured error message (a fixed message when none was captured), and
  \<open>extractTextFromImage\<close> returns an empty text, confidence 0 and its own fixed message,
  after one request to each configuration.
\<close>

theorem C2_first_text_wins_else_failure:
  assumes "isSet (GOOGLE_GEMINI_API_KEY e)" and "readFile e p = Inr ()"
  shows "(apiConfigs = pre @ c # post \<and> list_all (\<lambda>c'. replyText (reply e c') = None) pre \<and>
          replyText (reply e c) = Some t \<and> trim t \<noteq> [] \<longrightarrow>
            extractTextFromImage e p =
              (\<lparr>ocrText = trim t, ocrConfidence = 0.90, ocrMethod = Gemini, ocrError = None\<rparr>,
               map requestOf pre @ [requestOf c, VerifyCall])) \<and>
         (list_all (\<lambda>c'. replyText (reply e c') = None) apiConfigs \<longrightarrow>
            extractTextWithGemini e p =
              (Inr \<lparr>ocrText = [], ocrConfidence = 0, ocrMethod = Gemini,
                    ocrError = Some (errorMessage (lastCaptured e None apiConfigs))\<rparr>,
               map requestOf apiConfigs) \<and>
            extractTextFromImage e p =
              (\<lparr>ocrText = [], ocrConfidence = 0, ocrMethod = Fallback, ocrError = Some failureMessage\<rparr>,
               map requestOf apiConfigs))"
proof (intro conjI impI)
  assume a: "apiConfigs = pre @ c # post \<and> list_all (\<lambda>c'. replyText (reply e c') = None) pre \<and>
          replyText (reply e c) = Some t \<and> trim t \<noteq> []"
  then have g: "extractTextWithGemini e p =
      (Inr \<lparr>ocrText = trim t, ocrConfidence = 0.90, ocrMethod = Gemini, ocrError = None\<rparr>,
       map requestOf pre @ [requestOf c])"
    using assms geminiLoop_first_text[of e pre c t post None]
    by (simp add: extractTextWithGemini_def)
  have pp: "postProcessWithAncientChineseModels e (trim t) = (trim t, [VerifyCall])"
    using a by (simp add: postProcessWithAncientChineseModels_def split: response.splits sum.splits)
  show "extractTextFromImage e p =
              (\<lparr>ocrText = trim t, ocrConfidence = 0.90, ocrMethod = Gemini, ocrError = None\<rparr>,
               map requestOf pre @ [requestOf c, VerifyCall])"
    using assms a g pp
    by (simp add: extractTextFromImage_def methods_def applyPostProcessing_def)
next
  assume a: "list_all (\<lambda>c'. replyText (reply e c') = None) apiConfigs"
  show g: "extractTextWithGemini e p =
              (Inr \<lparr>ocrText = [], ocrConfidence = 0, ocrMethod = Gemini,
                    ocrError = Some (errorMessage (lastCaptured e None apiConfigs))\<rparr>,
               map requestOf apiConfigs)"
    using assms geminiLoop_exhausted[OF a, of None]
    by (simp add: extractTextWithGemini_def)
  show "extractTextFromImage e p =
              (\<lparr>ocrText = [], ocrConfidence = 0, ocrMethod = Fallback, ocrError = Some failureMessage\<rparr>,
               map requestOf apiConfigs)"
    using assms g
    by (simp add: extractTextFromImage_def methods_def failureMessage_def)
qed

theorem C2_first_text_wins_else_failure_witness:
  "extractTextFromImage secondAnswers samplePath =
     (\<lparr>ocrText = [36947, 27861, 33258, 28982], ocrConfidence = 0.90, ocrMethod = Gemini, ocrError = None\<rparr>,
      [OcrCall ''v1beta'' ''gemini-2.5-flash'', OcrCall ''v1'' ''gemini-2.5-flash'', VerifyCall]) \<and>
   extractTextFromImage offline samplePath =
     (\<lparr>ocrText = [], ocrConfidence = 0, ocrMethod = Fallback, ocrError = Some failureMessage\<rparr>,
      [OcrCall ''v1beta'' ''gemini-2.5-flash'', OcrCall ''v1'' ''gemini-2.5-flash'',
       OcrCall ''v1beta'' ''gemini-2.5-flash-lite'', OcrCall ''v1'' ''gemini-2.5-flash-lite''])"
proof -
  have k1: "isSet (GOOGLE_GEMINI_API_KEY secondAnswers)" "readFile secondAnswers samplePath = Inr ()"
    by (simp_all add: secondAnswers_def offline_def isSet_def str_def)
  have k2: "isSet (GOOGLE_GEMINI_API_KEY offline)" "readFile offline samplePath = Inr ()"
    by (simp_all add: offline_def isSet_def str_def)
  have a: "apiConfigs = [(''v1beta'', ''gemini-2.5-flash'')] @ (''v1'', ''gemini-2.5-flash'') #
             [(''v1beta'', ''gemini-2.5-flash-lite''), (''v1'', ''gemini-2.5-flash-lite'')]"
    by (simp add: apiConfigs_def)
  have b: "list_all (\<lambda>c'. replyText (reply secondAnswers c') = None) [(''v1beta'', ''gemini-2.5-flash'')]"
    by (simp add: replyText_def reply_def secondAnswers_def offline_def ok_def)
  have c: "replyText (reply secondAnswers (''v1'', ''gemini-2.5-flash'')) = Some [36947, 27861, 33258, 28982]"
    by (simp add: replyText_def reply_def secondAnswers_def offline_def ok_def candidateText_geminiReply)
  have d: "trim [36947, 27861, 33258, 28982] \<noteq> []" by (simp add: trim_sample)
  show ?thesis
    using C2_first_text_wins_else_failure [OF k1, of "[(''v1beta'', ''gemini-2.5-flash'')]"
            "(''v1'', ''gemini-2.5-flash'')"
            "[(''v1beta'', ''gemini-2.5-flash-lite''), (''v1'', ''gemini-2.5-flash-lite'')]"
            "[36947, 27861, 33258, 28982]"]
          C2_first_text_wins_else_failure [OF k2] a b c d offline_replies
    by (simp add: trim_sample requestOf_def apiConfigs_def)
qed

section \<open>The confidence of a glyph match\<close>

text \<open>
  C1. For every call of \<open>matchGlyphs\<close>, the matches it emits are, in order, one for each
  qualifying character of the text, at the position and with the symbol of that
  character, and with the confidence of the tiered rule: 0.85 when the semantic service
  gave a meaning for the character; else the larger of the stored confidence and 0.75
  when the store lookup finds the character with a meaning that is not a placeholder;
  else 0.70 when the store lookup finds nothing and the last-resort lookup for the
  character succeeds; else 0.60. A meaning of the semantic service, when there is one, is
  the meaning of the match, whatever the store holds.
\<close>

theorem C1_tiered_confidence:
  "map (\<lambda>g. (position g, symbol g, confidence g)) (fst (matchGlyphs e t d ctx)) =
   map (\<lambda>(i, c). (i, c, tieredConfidence
                           (nonEmpty (lookupMeaning (fst (getCharacterMeanings e t ctx)) c))
                           (findMatchedGlyph e (db_glyph d) c)
                           (nonEmpty (fst (singleCharacterLookup e i)))))
     (qualifying t) \<and>
   list_all (\<lambda>g. nonEmpty (lookupMeaning (fst (getCharacterMeanings e t ctx)) (symbol g)) \<longrightarrow>
                  meaning g = lookupMeaning (fst (getCharacterMeanings e t ctx)) (symbol g))
     (fst (matchGlyphs e t d ctx))"
proof (cases "t = []")
  case True
  then show ?thesis by (simp add: matchGlyphs_def qualifying_def stripWhitespace_def)
next
  case False
  then show ?thesis
    using matchLoop_tiers[of e "fst (getCharacterMeanings e t ctx)" "db_glyph d" 0 "arrayFrom (stripWhitespace t)"]
          matchLoop_meanings[of "fst (getCharacterMeanings e t ctx)" e "db_glyph d" 0 "arrayFrom (stripWhitespace t)"]
    by (simp add: matchGlyphs_def qualifying_def split_beta Let_def)
qed

theorem C1_tiered_confidence_witness:
  "map (\<lambda>g. (position g, symbol g, confidence g))
     (fst (matchGlyphs tiersEnv [36947, 27861, 33258, 28982] tiersStore None)) =
   [(0, [36947], 0.85), (1, [27861], 0.75), (2, [33258], 0.60), (3, [28982], 0.70)] \<and>
   list_all (\<lambda>g. if symbol g = [36947] then meaning g = Some (str ''way'') else True)
     (fst (matchGlyphs tiersEnv [36947, 27861, 33258, 28982] tiersStore None))"
  using C1_tiered_confidence [of tiersEnv "[36947, 27861, 33258, 28982]" tiersStore None]
  by (simp add: sample_qualifying tiersEnv_meanings tiersEnv_lookup tiersStore_find stored_meanings
        tieredConfidence_def way_lookup list_all_iff)

section \<open>A text without characters to match\<close>

text \<open>
  C10. When every code unit of the text is white space or a character of the punctuation
  set (in particular when the text is empty), \<open>matchGlyphs\<close> returns the empty list of
  matches and sends no request, whatever the environment, the store and the context.
  (\<open>matchGlyphs\<close> has no exit by an exception in this model: the query of the store is
  taken to answer.)
\<close>

theorem C10_nothing_to_match:
  assumes "list_all (\<lambda>u. isSpace u \<or> isPunctuation [u]) t"
  shows "matchGlyphs e t d ctx = ([], [])"
proof -
  have p: "list_all (\<lambda>u. isPunctuation [u]) (stripWhitespace t)"
    using assms by (rule strip_punctuation)
  then have "list_all (\<lambda>u. u < 128) (stripWhitespace t)"
    by (auto simp: list_all_iff dest: punctuation_unit_small)
  then have a: "arrayFrom (stripWhitespace t) = map (\<lambda>u. [u]) (stripWhitespace t)"
    by (rule arrayFrom_small)
  have m: "getCharacterMeanings e t ctx = ([], [])"
    using no_chinese_punctuation[OF p] by (simp add: getCharacterMeanings_def a)
  show ?thesis
    using matchLoop_punctuation[OF p] by (simp add: matchGlyphs_def m a)
qed

theorem C10_nothing_to_match_witness:
  "list_all (\<lambda>u. isSpace u \<or> isPunctuation [u]) (str '' .,!'') \<and>
   matchGlyphs offline (str '' .,!'') tiersStore None = ([], [])"
proof -
  have h: "list_all (\<lambda>u. isSpace u \<or> isPunctuation [u]) (str '' .,!'')"
    by (simp add: str_def isSpace_def isPunctuation_def)
  show ?thesis using h C10_nothing_to_match [OF h, of offline tiersStore None] by simp
qed

section \<open>The sample text without a semantic service\<close>

text \<open>
  C3, as the claim states it, fails in its second half: the sample text is itself a key
  of the phrase table, so without a key for the semantic service \<open>generateTranslation\<close>
  returns the entry of the table with confidence 0.90, not the templated translation
  with confidence 0.60.
\<close>

theorem C3_sample_text_counterexample:
  "matchGlyphs noKey [36947, 27861, 33258, 28982] failedStore None = (sampleGlyphs, []) \<and>
   map confidence sampleGlyphs = [0.60, 0.60, 0.60, 0.60] \<and>
   generateTranslation noKey [36947, 27861, 33258, 28982] sampleGlyphs =
     (\<lparr>translation = Str sampleTranslation, translationConfidence = 0.90\<rparr>, []) \<and>
   translationConfidence (fst (generateTranslation noKey [36947, 27861, 33258, 28982] sampleGlyphs)) \<noteq> 0.60 \<and>
   translation (fst (generateTranslation noKey [36947, 27861, 33258, 28982] sampleGlyphs)) \<noteq>
     Str (genericTranslation [36947, 27861, 33258, 28982] sampleGlyphs)"
proof -
  have g: "generateTranslation noKey [36947, 27861, 33258, 28982] sampleGlyphs =
     (\<lparr>translation = Str sampleTranslation, translationConfidence = 0.90\<rparr>, [])"
    using noKey_translation[OF noKey_unset, of "[36947, 27861, 33258, 28982]" sampleGlyphs]
    by (simp add: sample_common)
  have n: "sampleTranslation \<noteq> genericTranslation [36947, 27861, 33258, 28982] sampleGlyphs"
    by (simp add: sampleTranslation_def genericTranslation_def str_def)
  show ?thesis
    using noKey_sample_glyphs[OF noKey_unset failedStore_unknown, of None] g n by (simp add: sampleGlyphs_def)
qed

text \<open>
  C3, amended. With no key for the semantic service and a store in which the lookup of
  the matcher finds none of the four characters of the sample text, \<open>matchGlyphs\<close> emits
  exactly four matches, one for each character, each with confidence 0.60 and the
  sentinel meaning \<open>Character recognized but meaning not available\<close>, and sends no
  request; \<open>generateTranslation\<close> on the sample text and those matches returns the entry
  of the phrase table with confidence 0.90; and on a non-empty text that the phrase
  table does not answer, the templated translation of those four matches has confidence
  min(mean(0.60, 0.60, 0.60, 0.60), 0.85) = 0.60.
\<close>

theorem C3_sample_text_unknown_glyphs:
  assumes "\<not> isSet (GOOGLE_GEMINI_API_KEY e)"
    and "list_all (\<lambda>c. findMatchedGlyph e (db_glyph d) c = None) [[36947], [27861], [33258], [28982]]"
  shows "matchGlyphs e [36947, 27861, 33258, 28982] d ctx = (sampleGlyphs, []) \<and>
         map (\<lambda>g. (symbol g, confidence g, meaning g)) sampleGlyphs =
           map (\<lambda>c. ([c], 0.60, Some (str ''Character recognized but meaning not available'')))
             [36947, 27861, 33258, 28982] \<and>
         generateTranslation e [36947, 27861, 33258, 28982] sampleGlyphs =
           (\<lparr>translation = Str sampleTranslation, translationConfidence = 0.90\<rparr>, []) \<and>
         (t \<noteq> [] \<and> lookupCommonTranslation t = None \<longrightarrow>
            generateTranslation e t sampleGlyphs =
              (\<lparr>translation = Str (genericTranslation t sampleGlyphs),
                translationConfidence = min ((0.60 + 0.60 + 0.60 + 0.60) / 4) 0.85\<rparr>, []) \<and>
            min ((0.60 + 0.60 + 0.60 + 0.60) / 4) 0.85 = (0.60::real))"
  using noKey_sample_glyphs[OF assms, of ctx]
        noKey_translation[OF assms(1), of "[36947, 27861, 33258, 28982]" sampleGlyphs]
        noKey_translation[OF assms(1), of t sampleGlyphs]
  by (simp add: sample_common sample_glyphs_avg) (simp add: sampleGlyphs_def)

theorem C3_sample_text_unknown_glyphs_witness:
  "matchGlyphs noKey [36947, 27861, 33258, 28982] failedStore None = (sampleGlyphs, []) \<and>
   generateTranslation noKey [36947, 27861, 33258, 28982] sampleGlyphs =
     (\<lparr>translation = Str sampleTranslation, translationConfidence = 0.90\<rparr>, []) \<and>
   generateTranslation noKey (str ''abc'') sampleGlyphs =
     (\<lparr>translation = Str (genericTranslation (str ''abc'') sampleGlyphs), translationConfidence = 0.60\<rparr>, [])"
proof -
  have a: "str ''abc'' \<noteq> []" "lookupCommonTranslation (str ''abc'') = None"
    by (simp_all add: lookupCommonTranslation_def commonTranslations_def objectPrototypeKeys_def str_def)
  show ?thesis
    using C3_sample_text_unknown_glyphs [OF noKey_unset failedStore_unknown, of None "str ''abc''"] a by simp
qed

section \<open>Translation without a semantic service\<close>

text \<open>
  C9, as the claim states it, fails for the empty text: it is not a key of the phrase
  table, and the answer is neither the templated translation nor of confidence 0.70 (the
  value of the claim for an empty list of glyphs), but a fixed message with confidence 0.
\<close>

theorem C9_empty_text_counterexample:
  "lookupCommonTranslation [] = None \<and>
   generateTranslation noKey [] [] =
     (\<lparr>translation = Str (str ''Unable to extract text from image. Please ensure the image is clear and contains readable text.''),
       translationConfidence = 0\<rparr>, []) \<and>
   translationConfidence (fst (generateTranslation noKey [] [])) \<noteq> 0.70 \<and>
   translation (fst (generateTranslation noKey [] [])) \<noteq> Str (genericTranslation [] [])"
  by (simp add: lookupCommonTranslation_def commonTranslations_def objectPrototypeKeys_def
        generateTranslation_def genericTranslation_def str_def)

text \<open>
  C9, amended. Without a Gemini key, \<open>generateTranslation\<close> sends no request and its
  result is the same in any two environments, so it is a function of the text and the
  glyphs alone. For the empty text it is the fixed message with confidence 0. For a
  non-empty text that is a key of the phrase table it is the string of the table with
  confidence 0.90. For a non-empty text that the lookup in the phrase table does not
  answer it is the templated translation with confidence min(mean of the glyph
  confidences, 0.85), the mean being 0.70 for an empty list of glyphs.
\<close>

theorem C9_translation_without_key:
  assumes "\<not> isSet (GOOGLE_GEMINI_API_KEY e)" and "\<not> isSet (GOOGLE_GEMINI_API_KEY e')"
  shows "generateTranslation e t gs = generateTranslation e' t gs \<and>
         snd (generateTranslation e t gs) = [] \<and>
         (t = [] \<longrightarrow>
            fst (generateTranslation e t gs) = \<lparr>translation = Str unableMessage, translationConfidence = 0\<rparr>) \<and>
         (t \<noteq> [] \<and> map_of commonTranslations t = Some v \<longrightarrow>
            fst (generateTranslation e t gs) = \<lparr>translation = Str v, translationConfidence = 0.90\<rparr>) \<and>
         (t \<noteq> [] \<and> lookupCommonTranslation t = None \<longrightarrow>
            fst (generateTranslation e t gs) =
              \<lparr>translation = Str (genericTranslation t gs),
                translationConfidence = min (meanConfidence gs) 0.85\<rparr>)"
proof (cases "t = []")
  case True
  then show ?thesis by (simp add: generateTranslation_def unableMessage_def)
next
  case False
  show ?thesis
    using False noKey_translation[OF assms(1) False, of gs] noKey_translation[OF assms(2) False, of gs]
    by (auto simp: avgConfidence_mean own_key_lookup split: option.splits)
qed

theorem C9_translation_without_key_witness:
  "generateTranslation noKey [36947, 27861, 33258, 28982] sampleGlyphs =
     generateTranslation noKeyOnline [36947, 27861, 33258, 28982] sampleGlyphs \<and>
   snd (generateTranslation noKey [36947, 27861, 33258, 28982] sampleGlyphs) = [] \<and>
   fst (generateTranslation noKey [] sampleGlyphs) = \<lparr>translation = Str unableMessage, translationConfidence = 0\<rparr> \<and>
   fst (generateTranslation noKey [36947, 27861, 33258, 28982] sampleGlyphs) =
     \<lparr>translation = Str sampleTranslation, translationConfidence = 0.90\<rparr> \<and>
   fst (generateTranslation noKey (str ''abc'') sampleGlyphs) =
     \<lparr>translation = Str (genericTranslation (str ''abc'') sampleGlyphs), translationConfidence = 0.60\<rparr> \<and>
   fst (generateTranslation noKey (str ''abc'') []) =
     \<lparr>translation = Str (genericTranslation (str ''abc'') []), translationConfidence = 0.70\<rparr>"
proof -
  have k: "\<not> isSet (GOOGLE_GEMINI_API_KEY noKeyOnline)"
    by (simp add: noKeyOnline_def ocrOnly_def offline_def isSet_def)
  have a: "str ''abc'' \<noteq> []" "lookupCommonTranslation (str ''abc'') = None"
    by (simp_all add: lookupCommonTranslation_def commonTranslations_def objectPrototypeKeys_def str_def)
  have s: "map_of commonTranslations [36947, 27861, 33258, 28982] = Some sampleTranslation"
    by (simp add: commonTranslations_def sampleTranslation_def)
  have m: "meanConfidence sampleGlyphs = 0.60" "meanConfidence [] = 0.70"
    by (simp_all add: meanConfidence_def sampleGlyphs_def)
  note t1 = C9_translation_without_key [OF noKey_unset k, of "[36947, 27861, 33258, 28982]" sampleGlyphs sampleTranslation]
  note t2 = C9_translation_without_key [OF noKey_unset k, of "[]" sampleGlyphs]
  note t3 = C9_translation_without_key [OF noKey_unset k, of "str ''abc''" sampleGlyphs]
  note t4 = C9_translation_without_key [OF noKey_unset k, of "str ''abc''" "[]"]
  have c1: "generateTranslation noKey [36947, 27861, 33258, 28982] sampleGlyphs =
     generateTranslation noKeyOnline [36947, 27861, 33258, 28982] sampleGlyphs"
    using t1 by blast
  have c2: "snd (generateTranslation noKey [36947, 27861, 33258, 28982] sampleGlyphs) = []"
    using t1 by blast
  have c3: "fst (generateTranslation noKey [] sampleGlyphs) = \<lparr>translation = Str unableMessage, translationConfidence = 0\<rparr>"
    using t2[THEN conjunct2, THEN conjunct2, THEN conjunct1] by simp
  have c4: "fst (generateTranslation noKey [36947, 27861, 33258, 28982] sampleGlyphs) =
     \<lparr>translation = Str sampleTranslation, translationConfidence = 0.90\<rparr>"
    using t1[THEN conjunct2, THEN conjunct2, THEN conjunct2, THEN conjunct1] s by simp
  have c5: "fst (generateTranslation noKey (str ''abc'') sampleGlyphs) =
     \<lparr>translation = Str (genericTranslation (str ''abc'') sampleGlyphs), translationConfidence = 0.60\<rparr>"
    using t3[THEN conjunct2, THEN conjunct2, THEN conjunct2, THEN conjunct2] a m by simp
  have c6: "fst (generateTranslation noKey (str ''abc'') []) =
     \<lparr>translation = Str (genericTranslation (str ''abc'') []), translationConfidence = 0.70\<rparr>"
    using t4[THEN conjunct2, THEN conjunct2, THEN conjunct2, THEN conjunct2] a m by simp
  show ?thesis using c1 c2 c3 c4 c5 c6 by blast
qed

section \<open>The pipeline coordinator\<close>

text \<open>
  C4, as the claim states it, fails in one part: a failing translation stage does not
  always lower the confidence. When every translation request fails and the text is a key
  of the phrase table, the run completes with confidence 0.90, above the 0.88 it has when
  the translation backend answers.
\<close>

theorem C4_fallback_not_lower_counterexample:
  "fst (translateLoop ocrOnly apiConfigs) = None \<and>
   map_sum (\<lambda>m. m) pr_confidence (fst (processAncientText ocrOnly samplePath failedStore)) = Inr 0.90 \<and>
   map_sum (\<lambda>m. m) pr_confidence (fst (processAncientText translationAnswers samplePath failedStore)) = Inr 0.88 \<and>
   \<not> ((0.90::real) < 0.88)"
proof -
  have a: "map_sum (\<lambda>m. m) pr_confidence (fst (processAncientText ocrOnly samplePath failedStore)) = Inr 0.90"
    using ocrOnly_process[of failedStore] by (simp add: failedStore_def)
  have b: "map_sum (\<lambda>m. m) pr_confidence (fst (processAncientText translationAnswers samplePath failedStore)) = Inr 0.88"
    using process_confidence[of translationAnswers samplePath failedStore]
    by (simp add: translationAnswers_text translationAnswers_confidence)
  show ?thesis using a b ocrOnly_translation_fails by simp
qed

text \<open>
  C4, amended. \<open>processAncientText\<close> throws if and only if the OCR extraction yields an
  empty text and the development fallback is not enabled, and the processing route then
  answers with status code 500 and sets the status of the upload to \<open>FAILED\<close>. With a
  non-empty text it always returns a result, whatever the translation stage and the
  inference of meanings do; when every translation request fails, the confidence of the
  result is that of the fallback tier: 0.90 when the phrase table answers the text, 0.70
  otherwise.
\<close>

theorem C4_throws_only_without_text:
  "(isl (fst (processAncientText e p d)) \<longleftrightarrow>
      (ocrText (fst (extractTextFromImage e p)) = [] \<and> \<not> developmentFallback e)) \<and>
   (find (\<lambda>u. upload_id u = uid) (db_upload d) = Some up \<and>
    ocrText (fst (extractTextFromImage e (upload_filePath up))) = [] \<and> \<not> developmentFallback e \<longrightarrow>
      fst (POST_process e d (Some uid)) = Responded 500 (str ''Failed to process image with AI'') \<and>
      list_all (\<lambda>u. upload_status u = FAILED)
        (filter (\<lambda>u. upload_id u = uid) (db_upload (snd (POST_process e d (Some uid)))))) \<and>
   (ocrText (fst (extractTextFromImage e p)) \<noteq> [] \<and> fst (translateLoop e apiConfigs) = None \<longrightarrow>
      map_sum (\<lambda>m. m) pr_confidence (fst (processAncientText e p d)) =
        Inr (if lookupCommonTranslation (ocrText (fst (extractTextFromImage e p))) = None then 0.70 else 0.90))"
proof (intro conjI impI)
  show "isl (fst (processAncientText e p d)) \<longleftrightarrow>
      (ocrText (fst (extractTextFromImage e p)) = [] \<and> \<not> developmentFallback e)"
    by (rule process_throws_iff)
next
  assume a: "find (\<lambda>u. upload_id u = uid) (db_upload d) = Some up \<and>
    ocrText (fst (extractTextFromImage e (upload_filePath up))) = [] \<and> \<not> developmentFallback e"
  define d3 where "d3 = (setUploadStatus uid PROCESSING d)
       \<lparr>db_glyphMatch := filter (\<lambda>m. gm_uploadId m \<noteq> uid) (db_glyphMatch (setUploadStatus uid PROCESSING d)),
        db_translation := filter (\<lambda>t. tr_uploadId t \<noteq> uid) (db_translation (setUploadStatus uid PROCESSING d))\<rparr>"
  from a have "isl (fst (processAncientText e (upload_filePath up) d3))"
    by (simp add: process_throws_iff)
  then obtain m where m: "fst (processAncientText e (upload_filePath up) d3) = Inl m"
    by (auto simp: isl_def)
  have r: "POST_process e d (Some uid) =
      (Responded 500 (str ''Failed to process image with AI''), setUploadStatus uid FAILED d3)"
    using a m by (simp add: POST_process_def Let_def d3_def)
  show "fst (POST_process e d (Some uid)) = Responded 500 (str ''Failed to process image with AI'')"
    by (simp add: r)
  show "list_all (\<lambda>u. upload_status u = FAILED)
        (filter (\<lambda>u. upload_id u = uid) (db_upload (snd (POST_process e d (Some uid)))))"
    by (simp add: r setUploadStatus_all)
next
  assume a: "ocrText (fst (extractTextFromImage e p)) \<noteq> [] \<and> fst (translateLoop e apiConfigs) = None"
  then show "map_sum (\<lambda>m. m) pr_confidence (fst (processAncientText e p d)) =
        Inr (if lookupCommonTranslation (ocrText (fst (extractTextFromImage e p))) = None then 0.70 else 0.90)"
    using process_confidence[of e p d] failed_translation_confidence[of "ocrText (fst (extractTextFromImage e p))" e]
    by simp
qed

theorem C4_throws_only_without_text_witness:
  "isl (fst (processAncientText offline samplePath failedStore)) \<and>
   fst (POST_process offline failedStore (Some 41)) = Responded 500 (str ''Failed to process image with AI'') \<and>
   list_all (\<lambda>u. upload_status u = FAILED)
     (filter (\<lambda>u. upload_id u = 41) (db_upload (snd (POST_process offline failedStore (Some 41))))) \<and>
   \<not> isl (fst (processAncientText devFallback samplePath failedStore)) \<and>
   map_sum (\<lambda>m. m) pr_confidence (fst (processAncientText ocrOnly samplePath failedStore)) = Inr 0.90"
proof -
  have u: "find (\<lambda>u. upload_id u = 41) (db_upload failedStore) =
      Some \<lparr>upload_id = 41, upload_userId = 7, upload_filePath = samplePath, upload_status = FAILED, upload_scriptType = None\<rparr>"
    by (simp add: failedStore_def)
  have n: "\<not> developmentFallback offline" by (simp add: developmentFallback_def offline_def)
  have y: "developmentFallback devFallback" by (simp add: developmentFallback_def devFallback_def offline_def)
  have o: "ocrText (fst (extractTextFromImage ocrOnly samplePath)) = [36947, 27861, 33258, 28982]"
    by (simp add: ocrOnly_extract)
  have c: "lookupCommonTranslation [36947, 27861, 33258, 28982] \<noteq> None" by (simp add: sample_common)
  note t1 = C4_throws_only_without_text [of offline samplePath failedStore 41
      "\<lparr>upload_id = 41, upload_userId = 7, upload_filePath = samplePath, upload_status = FAILED, upload_scriptType = None\<rparr>"]
  note t2 = C4_throws_only_without_text [of devFallback samplePath failedStore]
  note t3 = C4_throws_only_without_text [of ocrOnly samplePath failedStore]
  have c1: "isl (fst (processAncientText offline samplePath failedStore))"
    using t1[THEN conjunct1] n by (simp add: offline_no_text)
  have c2: "fst (POST_process offline failedStore (Some 41)) = Responded 500 (str ''Failed to process image with AI'') \<and>
   list_all (\<lambda>u. upload_status u = FAILED)
     (filter (\<lambda>u. upload_id u = 41) (db_upload (snd (POST_process offline failedStore (Some 41)))))"
    using t1[THEN conjunct2, THEN conjunct1] n u by (simp add: offline_no_text)
  have c3: "\<not> isl (fst (processAncientText devFallback samplePath failedStore))"
    using t2[THEN conjunct1] y by simp
  have c4: "map_sum (\<lambda>m. m) pr_confidence (fst (processAncientText ocrOnly samplePath failedStore)) = Inr 0.90"
    using t3[THEN conjunct2, THEN conjunct2] o c ocrOnly_translation_fails by simp
  show ?thesis using c1 c2 c3 c4 by blast
qed

section \<open>The batch route\<close>

text \<open>
  C7. For a batch request of a signed-in user over a non-empty set of owned uploads,
  processed sequentially, or in chunks of a positive size \<open>maxConcurrent\<close>, the handler
  returns, and its result list has exactly one entry for each upload, in order: the
  value of the run of that upload when the run returned, and a failed entry for that
  upload when the run threw; the entries of the other runs are the values of their own
  runs. The counts of the response are the numbers of returning and of throwing runs.
  (The runs of a chunk are taken one after the other, in the order of the chunk.) For
  five uploads in chunks of two where the third run throws, the response counts four
  successes and one failure.
\<close>

theorem C7_one_entry_per_upload:
  assumes "sessionUser request = Some userId" and "uploadIds request = Some ids"
    and "uploads = filter (\<lambda>u. upload_id u \<in> set ids \<and> upload_userId u = userId) (db_upload d)"
    and "uploads \<noteq> []"
    and "par = (case parallel request of None \<Rightarrow> False | Some b \<Rightarrow> b)"
    and "enable = (case enableReconstruction request of None \<Rightarrow> True | Some b \<Rightarrow> b)"
    and "maxC = (case maxConcurrent request of None \<Rightarrow> 3 | Some n \<Rightarrow> n)"
    and "par \<Longrightarrow> 0 < maxC"
    and "outcomes = fst (allSettled e g enable d (map upload_id uploads))"
  shows "case POST_batch e g d request of
           Some (response, d') \<Rightarrow> aggregated outcomes (map upload_id uploads) response
         | None \<Rightarrow> False"
proof -
  have ids: "length ids \<noteq> 0" using assms(3,4) by auto
  have len: "length uploads \<noteq> 0" using assms(4) by simp
  have own: "list_all2 ownOutcome (map upload_id uploads) outcomes"
    unfolding assms(9) by (rule allSettled_own)
  have pb: "POST_batch e g d request =
      (case (if par then map_option (runBatches e g enable d) (makeBatches uploads maxC 0 [])
             else Some (runSequentially e g enable d uploads)) of
         None \<Rightarrow> None
       | Some (results, d') \<Rightarrow>
           Some (Processed (length (filter (\<lambda>r. entry_status r = Success) results))
                           (length (filter (\<lambda>r. entry_status r = Failed) results))
                           results, d'))"
    unfolding POST_batch_def Let_def assms(1,2) option.case
      assms(3)[symmetric] assms(5)[symmetric] assms(6)[symmetric] assms(7)[symmetric]
    using ids len by (simp only: if_False)
  show ?thesis
  proof (cases par)
    case False
    have r: "runSequentially e g enable d uploads =
        (map sequentialEntry (zip (map upload_id uploads) outcomes),
         snd (allSettled e g enable d (map upload_id uploads)))"
      unfolding assms(9) by (rule runSequentially_entries)
    show ?thesis
      unfolding pb using False aggregate_entries[OF own, of sequentialEntry]
      by (simp add: r)
  next
    case True
    then have "0 < maxC" by (rule assms(8))
    from makeBatches_returns[OF this, of uploads 0 "[]"]
    obtain bs where bs: "makeBatches uploads maxC 0 [] = Some bs" "concat bs = map upload_id uploads"
      by auto
    have r: "runBatches e g enable d bs =
        (map settledEntry (zip (map upload_id uploads) outcomes),
         snd (allSettled e g enable d (map upload_id uploads)))"
      unfolding assms(9) bs(2)[symmetric] by (rule runBatches_concat)
    show ?thesis
      unfolding pb using True aggregate_entries[OF own, of settledEntry]
      by (simp add: bs(1) r)
  qed
qed

theorem C7_one_entry_per_upload_witness:
  "case POST_batch offline byConfidence fiveUploads fiveRequest of
     Some (Processed np nf results, d') \<Rightarrow>
       np = 4 \<and> nf = 1 \<and> map entry_uploadId results = [41, 42, 43, 44, 45] \<and>
       map entry_status results = [Success, Success, Failed, Success, Success]
   | other \<Rightarrow> False"
proof -
  define os where "os = fst (allSettled offline byConfidence True fiveUploads [41, 42, 43, 44, 45])"
  have o: "map isl os = [False, False, True, False, False]"
    unfolding os_def by (rule five_outcomes)
  have i: "map upload_id (db_upload fiveUploads) = [41, 42, 43, 44, 45]" by (simp add: fiveUploads_def)
  have h1: "sessionUser fiveRequest = Some 7" by (simp add: fiveRequest_def)
  have h2: "uploadIds fiveRequest = Some [41, 42, 43, 44, 45]" by (simp add: fiveRequest_def)
  have h3: "db_upload fiveUploads =
      filter (\<lambda>u. upload_id u \<in> set [41, 42, 43, 44, 45] \<and> upload_userId u = 7) (db_upload fiveUploads)"
    by (simp add: fiveUploads_def)
  have h4: "db_upload fiveUploads \<noteq> []" by (simp add: fiveUploads_def)
  have h5: "True = (case parallel fiveRequest of None \<Rightarrow> False | Some b \<Rightarrow> b)" by (simp add: fiveRequest_def)
  have h6: "True = (case enableReconstruction fiveRequest of None \<Rightarrow> True | Some b \<Rightarrow> b)"
    by (simp add: fiveRequest_def)
  have h7: "2 = (case maxConcurrent fiveRequest of None \<Rightarrow> 3 | Some n \<Rightarrow> n)" by (simp add: fiveRequest_def)
  have h8: "True \<Longrightarrow> 0 < (2::int)" by simp
  have h9: "os = fst (allSettled offline byConfidence True fiveUploads (map upload_id (db_upload fiveUploads)))"
    unfolding i by (rule os_def)
  note t = C7_one_entry_per_upload [OF h1 h2 h3 h4 h5 h6 h7 h8 h9, unfolded i]
  then obtain response d' where pb: "POST_batch offline byConfidence fiveUploads fiveRequest = Some (response, d')"
    and ag: "aggregated os [41, 42, 43, 44, 45] response"
    by (cases "POST_batch offline byConfidence fiveUploads fiveRequest") auto
  have l: "length (filter (\<lambda>outcome. \<not> isl outcome) os) = length (filter Not (map isl os))"
          "length (filter isl os) = length (filter (\<lambda>b. b) (map isl os))"
    by (simp_all add: filter_map comp_def)
  have "map (\<lambda>outcome. if isl outcome then Failed else Success) os =
      map (\<lambda>b. if b then Failed else Success) (map isl os)"
    by simp
  then have st: "map (\<lambda>outcome. if isl outcome then Failed else Success) os =
      [Success, Success, Failed, Success, Success]"
    unfolding o by simp
  show ?thesis
    using ag by (cases response) (simp_all add: pb aggregated_def l o st)
qed

end
